theory Spec2Isabelle
  imports Complex_Main "HOL-Library.Multiset"
begin

section \<open>JavaScript values that can be thrown\<close>

text \<open>
  The classes of \<^verbatim>\<open>middleware/error-handler.ts\<close> that the services throw or test with
  \<^verbatim>\<open>instanceof\<close>, the built-in \<^verbatim>\<open>Error\<close>, and a class for errors raised inside
  third-party libraries (the HTTP client, the speech SDK, the database driver).
\<close>

datatype error_class =
    PlainError
  | InvalidUrlError
  | DownloadError
  | ExternalServiceError
  | LibraryError

text \<open>
  A promise can reject with any value, not only with an \<^verbatim>\<open>Error\<close> instance.
  \<open>ErrorObj c m\<close> is an instance of class \<open>c\<close> with message \<open>m\<close>; the other
  constructors are values that are not instances of \<^verbatim>\<open>Error\<close>.
\<close>

datatype js_value =
    Undefined
  | NullVal
  | StringVal string
  | ErrorObj error_class string

fun instanceof_Error :: "js_value \<Rightarrow> bool" where
  "instanceof_Error (ErrorObj c m) = True"
| "instanceof_Error v = False"

text \<open>\<^verbatim>\<open>String(v)\<close>; on an \<^verbatim>\<open>Error\<close> it is not used by the code modelled here.\<close>

fun String_of :: "js_value \<Rightarrow> string" where
  "String_of Undefined = ''undefined''"
| "String_of NullVal = ''null''"
| "String_of (StringVal s) = s"
| "String_of (ErrorObj c m) = ''Error: '' @ m"

section \<open>The backoff executor: \<^verbatim>\<open>retryWithBackoff\<close> (utils/retry.ts)\<close>

text \<open>
  \<^verbatim>\<open>RetryOptions\<close>. The numbers are JavaScript numbers in the source; the model takes
  them as integers. The observer \<^verbatim>\<open>onRetry\<close> is optional: the field says whether one
  was supplied, and each call of it is recorded in the trace with its two arguments. The
  logger and the observer are collaborators that return normally.
\<close>

record retry_options =
  maxAttempts :: int
  initialDelay :: int
  maxDelay :: int
  onRetry :: bool

text \<open>
  What one run of \<^verbatim>\<open>retryWithBackoff\<close> does to the outside, in order: an invocation of
  the operation, a \<^verbatim>\<open>logWarn\<close> with attempt, maxAttempts and delay, a call of the observer
  with attempt and error, a \<^verbatim>\<open>sleep\<close> of the given number of milliseconds.
\<close>

datatype retry_event =
    Invoked
  | Warned int int int
  | Observed int js_value
  | Slept int

text \<open>
  The operation \<^verbatim>\<open>fn\<close> has no arguments and may answer differently each time it is
  called: \<open>fn i\<close> is the outcome of its call number \<open>i\<close> (counted from 0), \<open>Inl\<close> a
  rejection with the thrown value and \<open>Inr\<close> the resolved value.
\<close>

type_synonym 'a operation = "nat \<Rightarrow> js_value + 'a"

text \<open>Line 18: \<^verbatim>\<open>error instanceof Error ? error : new Error(String(error))\<close>.\<close>

definition as_Error :: "js_value \<Rightarrow> js_value" where
  "as_Error error = (if instanceof_Error error then error else ErrorObj PlainError (String_of error))"

text \<open>Line 26: \<^verbatim>\<open>Math.min(initialDelay * Math.pow(2, attempt - 1), maxDelay)\<close>.\<close>

definition backoff_delay :: "retry_options \<Rightarrow> int \<Rightarrow> int" where
  "backoff_delay opts attempt = min (initialDelay opts * 2 ^ nat (attempt - 1)) (maxDelay opts)"

text \<open>Lines 29 to 42: what follows a failed attempt that was not the last one.\<close>

definition between_attempts :: "retry_options \<Rightarrow> int \<Rightarrow> js_value \<Rightarrow> retry_event list" where
  "between_attempts opts attempt lastError =
     [Warned attempt (maxAttempts opts) (backoff_delay opts attempt)]
     @ (if onRetry opts then [Observed attempt lastError] else [])
     @ [Slept (backoff_delay opts attempt)]"

text \<open>
  The \<^verbatim>\<open>for\<close> loop of lines 14 to 44 and the \<^verbatim>\<open>throw lastError!\<close> of line 47 behind it.
  The loop variables are \<open>attempt\<close> and \<open>lastError\<close> (\<open>Undefined\<close> until assigned);
  \<open>calls\<close> counts the invocations of \<open>fn\<close> made so far.
\<close>

function retry_loop ::
  "'a operation \<Rightarrow> retry_options \<Rightarrow> int \<Rightarrow> js_value \<Rightarrow> nat \<Rightarrow> (js_value + 'a) \<times> retry_event list"
where
  "retry_loop fn opts attempt lastError calls =
     (if attempt \<le> maxAttempts opts then
        (case fn calls of
           Inr v \<Rightarrow> (Inr v, [Invoked])
         | Inl error \<Rightarrow>
             (if attempt = maxAttempts opts then (Inl (as_Error error), [Invoked])
              else
                (case retry_loop fn opts (attempt + 1) (as_Error error) (Suc calls) of
                   (r, evs) \<Rightarrow>
                     (r, Invoked # between_attempts opts attempt (as_Error error) @ evs))))
      else (Inl lastError, []))"
  by pat_completeness auto
termination
  by (relation "measure (\<lambda>(fn, opts, attempt, lastError, calls). nat (maxAttempts opts + 1 - attempt))") auto

definition retryWithBackoff :: "'a operation \<Rightarrow> retry_options \<Rightarrow> (js_value + 'a) \<times> retry_event list" where
  "retryWithBackoff fn opts = retry_loop fn opts 1 Undefined 0"

text \<open>Observations on a trace.\<close>

definition invocations :: "retry_event list \<Rightarrow> nat" where
  "invocations evs = length (filter (\<lambda>e. e = Invoked) evs)"

fun delays :: "retry_event list \<Rightarrow> int list" where
  "delays [] = []"
| "delays (Slept d # evs) = d # delays evs"
| "delays (e # evs) = delays evs"

text \<open>
  The trace the specification describes for attempt number \<open>n\<close> when it fails with
  \<open>err n\<close> and is not the last attempt: the invocation, the warning, the observer (when
  there is one) called with the attempt number and the error, and the delay
  \<open>min (initialDelay * 2 ^ (n - 1)) maxDelay\<close>, which is the delay before attempt \<open>n + 1\<close>.
\<close>

definition failed_attempt_trace :: "retry_options \<Rightarrow> (nat \<Rightarrow> js_value) \<Rightarrow> nat \<Rightarrow> retry_event list" where
  "failed_attempt_trace opts err n =
     [Invoked, Warned (int n) (maxAttempts opts) (min (initialDelay opts * 2 ^ (n - 1)) (maxDelay opts))]
     @ (if onRetry opts then [Observed (int n) (as_Error (err n))] else [])
     @ [Slept (min (initialDelay opts * 2 ^ (n - 1)) (maxDelay opts))]"

text \<open>Concrete operations and policies used for evaluation.\<close>

definition always_boom :: "unit operation" where
  "always_boom i = Inl (StringVal ''boom'')"

definition always_fail :: "unit operation" where
  "always_fail i = Inl (ErrorObj PlainError ''Always fail'')"

definition third_time_lucky :: "string operation" where
  "third_time_lucky i =
     (if i = 0 then Inl (ErrorObj PlainError ''Fail 1'')
      else if i = 1 then Inl (ErrorObj PlainError ''Fail 2'')
      else Inr ''success'')"

definition third_time_errors :: "nat \<Rightarrow> js_value" where
  "third_time_errors n = (if n = 1 then ErrorObj PlainError ''Fail 1'' else ErrorObj PlainError ''Fail 2'')"

definition policy :: "int \<Rightarrow> int \<Rightarrow> int \<Rightarrow> bool \<Rightarrow> retry_options" where
  "policy m d M obs = \<lparr>maxAttempts = m, initialDelay = d, maxDelay = M, onRetry = obs\<rparr>"

section \<open>Strings\<close>

text \<open>
  Strings are byte lists holding well-formed text in UTF-8. The white space of JavaScript
  (\<^verbatim>\<open>WhiteSpace\<close> and \<^verbatim>\<open>LineTerminator\<close>), each code point as its UTF-8 bytes: U+0009 to
  U+000D, U+0020, U+00A0, U+1680, U+2000 to U+200A, U+2028, U+2029, U+202F, U+205F, U+3000
  and U+FEFF.
\<close>

definition white_space :: "string list" where
  "white_space =
     [[CHR 0x09], [CHR 0x0A], [CHR 0x0B], [CHR 0x0C], [CHR 0x0D], [CHR 0x20],
      [CHR 0xC2, CHR 0xA0], [CHR 0xE1, CHR 0x9A, CHR 0x80], [CHR 0xE2, CHR 0x80, CHR 0x80],
      [CHR 0xE2, CHR 0x80, CHR 0x81], [CHR 0xE2, CHR 0x80, CHR 0x82],
      [CHR 0xE2, CHR 0x80, CHR 0x83], [CHR 0xE2, CHR 0x80, CHR 0x84],
      [CHR 0xE2, CHR 0x80, CHR 0x85], [CHR 0xE2, CHR 0x80, CHR 0x86],
      [CHR 0xE2, CHR 0x80, CHR 0x87], [CHR 0xE2, CHR 0x80, CHR 0x88],
      [CHR 0xE2, CHR 0x80, CHR 0x89], [CHR 0xE2, CHR 0x80, CHR 0x8A],
      [CHR 0xE2, CHR 0x80, CHR 0xA8], [CHR 0xE2, CHR 0x80, CHR 0xA9],
      [CHR 0xE2, CHR 0x80, CHR 0xAF], [CHR 0xE2, CHR 0x81, CHR 0x9F],
      [CHR 0xE3, CHR 0x80, CHR 0x80], [CHR 0xEF, CHR 0xBB, CHR 0xBF]]"

text \<open>
  The number of bytes of the white-space code point a string starts with, or ends with; 0
  when there is none.
\<close>

definition leading_space :: "string \<Rightarrow> nat" where
  "leading_space s =
     (case find (\<lambda>w. take (length w) s = w) white_space of None \<Rightarrow> 0 | Some w \<Rightarrow> length w)"

definition trailing_space :: "string \<Rightarrow> nat" where
  "trailing_space s =
     (case find (\<lambda>w. length w \<le> length s \<and> drop (length s - length w) s = w) white_space of
        None \<Rightarrow> 0
      | Some w \<Rightarrow> length w)"

function trimStart :: "string \<Rightarrow> string" where
  "trimStart s = (if leading_space s = 0 then s else trimStart (drop (leading_space s) s))"
  by pat_completeness auto
termination
proof (relation "measure length")
  fix s :: string
  assume a: "leading_space s \<noteq> 0"
  have "s \<noteq> []"
    using a by (auto simp: leading_space_def white_space_def)
  with a show "(drop (leading_space s) s, s) \<in> measure length"
    by simp
qed simp

function trimEnd :: "string \<Rightarrow> string" where
  "trimEnd s = (if trailing_space s = 0 then s else trimEnd (take (length s - trailing_space s) s))"
  by pat_completeness auto
termination
proof (relation "measure length")
  fix s :: string
  assume a: "trailing_space s \<noteq> 0"
  have "s \<noteq> []"
    using a by (auto simp: trailing_space_def white_space_def)
  with a show "(take (length s - trailing_space s) s, s) \<in> measure length"
    by simp
qed simp

text \<open>\<^verbatim>\<open>String.prototype.trim\<close>: the white space at both ends is removed.\<close>

definition trim :: "string \<Rightarrow> string" where
  "trim s = trimEnd (trimStart s)"

text \<open>Decimal rendering of a number, as a template literal does with a non-negative integer.\<close>

definition digit_char :: "nat \<Rightarrow> char" where
  "digit_char d = (''0123456789'') ! d"

fun decimal :: "nat \<Rightarrow> string" where
  "decimal n = (if n < 10 then [digit_char n] else decimal (n div 10) @ [digit_char (n mod 10)])"

section \<open>The recognition adapters (adapters/speech-client.mock.ts, speech-client.real.ts)\<close>

text \<open>\<^verbatim>\<open>LanguageCode\<close> of types/index.ts.\<close>

datatype language_code = en_US | fr_FR | es_ES | de_DE | it_IT | ja_JP | ko_KR

text \<open>
  \<^verbatim>\<open>SpeechRecognitionResult\<close>. Confidence is in hundredths (\<^verbatim>\<open>0.95\<close> is 95), durations
  are in milliseconds; both are optional in the interface.
\<close>

record speech_result =
  result_text :: string
  language :: language_code
  duration :: "int option"
  confidence :: "nat option"

definition mock_en_US :: string where
  "mock_en_US =
     ''This is a mock transcription in English. The audio has been processed successfully.''"

definition mock_fr_FR :: string where
  "mock_fr_FR =
     ''Ceci est une transcription fictive en fran'' @ [CHR 0xC3, CHR 0xA7] @ ''ais. L''
       @ [CHR 0x27] @ ''audio a '' @ [CHR 0xC3, CHR 0xA9] @ ''t'' @ [CHR 0xC3, CHR 0xA9]
       @ '' trait'' @ [CHR 0xC3, CHR 0xA9] @ '' avec succ'' @ [CHR 0xC3, CHR 0xA8] @ ''s.''"

definition mock_es_ES :: string where
  "mock_es_ES =
     ''Esta es una transcripci'' @ [CHR 0xC3, CHR 0xB3] @ ''n simulada en espa''
       @ [CHR 0xC3, CHR 0xB1] @ ''ol. El audio se ha procesado correctamente.''"

definition mock_de_DE :: string where
  "mock_de_DE =
     ''Dies ist eine simulierte Transkription auf Deutsch. Das Audio wurde erfolgreich verarbeitet.''"

definition mock_it_IT :: string where
  "mock_it_IT =
     ''Questa '' @ [CHR 0xC3, CHR 0xA8] @ '' una trascrizione simulata in italiano. L''
       @ [CHR 0x27] @ ''audio '' @ [CHR 0xC3, CHR 0xA8] @ '' stato elaborato con successo.''"

definition mock_ja_JP :: string where
  "mock_ja_JP =
     [CHR 0xE3, CHR 0x81, CHR 0x93] @ [CHR 0xE3, CHR 0x82, CHR 0x8C]
       @ [CHR 0xE3, CHR 0x81, CHR 0xAF] @ [CHR 0xE6, CHR 0x97, CHR 0xA5]
       @ [CHR 0xE6, CHR 0x9C, CHR 0xAC] @ [CHR 0xE8, CHR 0xAA, CHR 0x9E]
       @ [CHR 0xE3, CHR 0x81, CHR 0xAE] @ [CHR 0xE3, CHR 0x83, CHR 0xA2]
       @ [CHR 0xE3, CHR 0x83, CHR 0x83] @ [CHR 0xE3, CHR 0x82, CHR 0xAF]
       @ [CHR 0xE6, CHR 0x96, CHR 0x87] @ [CHR 0xE5, CHR 0xAD, CHR 0x97]
       @ [CHR 0xE8, CHR 0xB5, CHR 0xB7] @ [CHR 0xE3, CHR 0x81, CHR 0x93]
       @ [CHR 0xE3, CHR 0x81, CHR 0x97] @ [CHR 0xE3, CHR 0x81, CHR 0xA7]
       @ [CHR 0xE3, CHR 0x81, CHR 0x99] @ [CHR 0xE3, CHR 0x80, CHR 0x82]
       @ [CHR 0xE3, CHR 0x82, CHR 0xAA] @ [CHR 0xE3, CHR 0x83, CHR 0xBC]
       @ [CHR 0xE3, CHR 0x83, CHR 0x87] @ [CHR 0xE3, CHR 0x82, CHR 0xA3]
       @ [CHR 0xE3, CHR 0x82, CHR 0xAA] @ [CHR 0xE3, CHR 0x81, CHR 0xAF]
       @ [CHR 0xE6, CHR 0xAD, CHR 0xA3] @ [CHR 0xE5, CHR 0xB8, CHR 0xB8]
       @ [CHR 0xE3, CHR 0x81, CHR 0xAB] @ [CHR 0xE5, CHR 0x87, CHR 0xA6]
       @ [CHR 0xE7, CHR 0x90, CHR 0x86] @ [CHR 0xE3, CHR 0x81, CHR 0x95]
       @ [CHR 0xE3, CHR 0x82, CHR 0x8C] @ [CHR 0xE3, CHR 0x81, CHR 0xBE]
       @ [CHR 0xE3, CHR 0x81, CHR 0x97] @ [CHR 0xE3, CHR 0x81, CHR 0x9F]
       @ [CHR 0xE3, CHR 0x80, CHR 0x82]"

definition mock_ko_KR :: string where
  "mock_ko_KR =
     [CHR 0xEC, CHR 0x9D, CHR 0xB4] @ [CHR 0xEA, CHR 0xB2, CHR 0x83]
       @ [CHR 0xEC, CHR 0x9D, CHR 0x80] @ '' '' @ [CHR 0xED, CHR 0x95, CHR 0x9C]
       @ [CHR 0xEA, CHR 0xB5, CHR 0xAD] @ [CHR 0xEC, CHR 0x96, CHR 0xB4] @ '' ''
       @ [CHR 0xEB, CHR 0xAA, CHR 0xA8] @ [CHR 0xEC, CHR 0x9D, CHR 0x98] @ '' ''
       @ [CHR 0xEC, CHR 0xA0, CHR 0x84] @ [CHR 0xEC, CHR 0x82, CHR 0xAC]
       @ [CHR 0xEC, CHR 0x9E, CHR 0x85] @ [CHR 0xEB, CHR 0x8B, CHR 0x88]
       @ [CHR 0xEB, CHR 0x8B, CHR 0xA4] @ ''. '' @ [CHR 0xEC, CHR 0x98, CHR 0xA4]
       @ [CHR 0xEB, CHR 0x94, CHR 0x94] @ [CHR 0xEC, CHR 0x98, CHR 0xA4]
       @ [CHR 0xEA, CHR 0xB0, CHR 0x80] @ '' '' @ [CHR 0xEC, CHR 0x84, CHR 0xB1]
       @ [CHR 0xEA, CHR 0xB3, CHR 0xB5] @ [CHR 0xEC, CHR 0xA0, CHR 0x81]
       @ [CHR 0xEC, CHR 0x9C, CHR 0xBC] @ [CHR 0xEB, CHR 0xA1, CHR 0x9C] @ '' ''
       @ [CHR 0xEC, CHR 0xB2, CHR 0x98] @ [CHR 0xEB, CHR 0xA6, CHR 0xAC]
       @ [CHR 0xEB, CHR 0x90, CHR 0x98] @ [CHR 0xEC, CHR 0x97, CHR 0x88]
       @ [CHR 0xEC, CHR 0x8A, CHR 0xB5] @ [CHR 0xEB, CHR 0x8B, CHR 0x88]
       @ [CHR 0xEB, CHR 0x8B, CHR 0xA4] @ ''.''"

text \<open>
  \<^verbatim>\<open>transcriptions[language] || transcriptions['en-US']\<close>: every language code is a key
  of the table and every entry is a non-empty string, so the fall-back is never taken.
\<close>

fun mock_transcriptions :: "language_code \<Rightarrow> string" where
  "mock_transcriptions en_US = mock_en_US"
| "mock_transcriptions fr_FR = mock_fr_FR"
| "mock_transcriptions es_ES = mock_es_ES"
| "mock_transcriptions de_DE = mock_de_DE"
| "mock_transcriptions it_IT = mock_it_IT"
| "mock_transcriptions ja_JP = mock_ja_JP"
| "mock_transcriptions ko_KR = mock_ko_KR"

definition MockSpeechClient_transcribe :: "language_code \<Rightarrow> js_value + speech_result" where
  "MockSpeechClient_transcribe lang =
     Inr \<lparr>result_text = (if mock_transcriptions lang \<noteq> [] then mock_transcriptions lang
                  else mock_transcriptions en_US),
          language = lang, duration = Some 2500, confidence = Some 95\<rparr>"

text \<open>
  The two implementations of \<^verbatim>\<open>ISpeechClient\<close>. The real client holds the two
  credentials of the configuration, each possibly undefined.
\<close>

datatype speech_client =
    MockSpeechClient
  | RealSpeechClient "string option" "string option"

text \<open>\<^verbatim>\<open>Boolean(key && region)\<close>: both are defined and neither is the empty string.\<close>

definition truthy_string :: "string option \<Rightarrow> bool" where
  "truthy_string s = (case s of None \<Rightarrow> False | Some v \<Rightarrow> v \<noteq> [])"

fun isConfigured :: "speech_client \<Rightarrow> bool" where
  "isConfigured MockSpeechClient = True"
| "isConfigured (RealSpeechClient speechKey speechRegion) =
     (truthy_string speechKey \<and> truthy_string speechRegion)"

subsection \<open>One call of \<^verbatim>\<open>RealSpeechClient.transcribe\<close>\<close>

text \<open>
  The promise the call returns is settled by callbacks: the recogniser's \<^verbatim>\<open>recognized\<close>,
  \<^verbatim>\<open>sessionStopped\<close> and \<^verbatim>\<open>canceled\<close> events, the error callback of
  \<^verbatim>\<open>startContinuousRecognitionAsync\<close>, and the timer of 60000 ms. A call is its local
  variables and the state of its promise; \<^verbatim>\<open>resolve\<close> and \<^verbatim>\<open>reject\<close> act on a pending
  promise only.
\<close>

record recognition =
  lang :: language_code
  startTime :: int
  transcription :: string
  settled :: "(js_value + speech_result) option"

datatype sdk_event =
    Recognized bool string
  | SessionStopped int
  | Canceled bool string int
  | StartFailed string
  | TimeoutFired int

definition settle :: "js_value + speech_result \<Rightarrow> recognition \<Rightarrow> recognition" where
  "settle outcome r = (case settled r of None \<Rightarrow> r\<lparr>settled := Some outcome\<rparr> | Some _ \<Rightarrow> r)"

text \<open>
  Lines 25 to 48: the credentials check, then the set-up inside the promise; when the SDK
  throws there (\<open>sdk_throws\<close>), the promise is rejected with what it threw and no timer
  is set. \<open>now\<close> is \<^verbatim>\<open>Date.now()\<close> at the start.
\<close>

definition transcribe_start ::
  "speech_client \<Rightarrow> language_code \<Rightarrow> js_value option \<Rightarrow> int \<Rightarrow> recognition" where
  "transcribe_start client l sdk_throws now =
     (let r = \<lparr>lang = l, startTime = now, transcription = [], settled = None\<rparr> in
      if \<not> isConfigured client then
        settle (Inl (ErrorObj ExternalServiceError ''Azure Speech credentials not configured'')) r
      else (case sdk_throws of Some e \<Rightarrow> settle (Inl e) r | None \<Rightarrow> r))"

text \<open>
  The callbacks of lines 51 to 108. \<open>Recognized speech t\<close>: the result's reason is
  \<^verbatim>\<open>RecognizedSpeech\<close> or not, and its text. \<open>Canceled is_error details now\<close>: the
  reason is \<^verbatim>\<open>CancellationReason.Error\<close> or not. The time of an event is \<^verbatim>\<open>Date.now()\<close>
  when its callback runs.
\<close>

fun on_sdk_event :: "recognition \<Rightarrow> sdk_event \<Rightarrow> recognition" where
  "on_sdk_event r (Recognized speech t) =
     (if speech then r\<lparr>transcription := transcription r @ t @ '' ''\<rparr> else r)"
| "on_sdk_event r (SessionStopped now) =
     settle (Inr \<lparr>result_text = trim (transcription r), language = lang r,
                  duration = Some (now - startTime r), confidence = Some 90\<rparr>) r"
| "on_sdk_event r (Canceled is_error details now) =
     (if is_error then settle (Inl (ErrorObj ExternalServiceError details)) r
      else settle (Inr \<lparr>result_text = trim (transcription r), language = lang r,
                        duration = Some (now - startTime r), confidence = None\<rparr>) r)"
| "on_sdk_event r (StartFailed err) = settle (Inl (ErrorObj ExternalServiceError err)) r"
| "on_sdk_event r (TimeoutFired now) =
     (if transcription r \<noteq> [] then
        settle (Inr \<lparr>result_text = trim (transcription r), language = lang r,
                     duration = Some (now - startTime r), confidence = None\<rparr>) r
      else settle (Inl (ErrorObj ExternalServiceError ''Transcription timeout'')) r)"

definition sdk_run :: "recognition \<Rightarrow> sdk_event list \<Rightarrow> recognition" where
  "sdk_run r evs = foldl on_sdk_event r evs"

text \<open>
  The texts of the recognition events whose reason is \<^verbatim>\<open>RecognizedSpeech\<close>, in order of
  arrival, and the accumulation the specification describes: these texts, each followed by
  one space.
\<close>

fun recognised_texts :: "sdk_event list \<Rightarrow> string list" where
  "recognised_texts [] = []"
| "recognised_texts (Recognized speech t # evs) = (if speech then [t] else []) @ recognised_texts evs"
| "recognised_texts (e # evs) = recognised_texts evs"

definition accumulated :: "sdk_event list \<Rightarrow> string" where
  "accumulated evs = concat (map (\<lambda>t. t @ '' '') (recognised_texts evs))"

definition azure_client :: speech_client where
  "azure_client = RealSpeechClient (Some ''key'') (Some ''westeurope'')"

section \<open>The transcription store (models/transcription.model.ts)\<close>

text \<open>\<^verbatim>\<open>TranscriptionSource\<close> of types/index.ts and the strings it stands for.\<close>

datatype transcription_source = mock | azure


text \<open>The metadata a streaming session stores: session id, duration in ms, chunk count.\<close>

record session_metadata =
  meta_sessionId :: string
  meta_duration :: int
  meta_chunkCount :: nat

text \<open>
  A stored document (\<^verbatim>\<open>ITranscription\<close>). \<open>doc_createdAt\<close> is in milliseconds since the
  epoch. \<open>doc_metadata = None\<close> is the schema's default, the empty object.
\<close>

record transcription_doc =
  doc_id :: string
  doc_audioUrl :: string
  doc_transcription :: string
  doc_source :: transcription_source
  doc_language :: "language_code option"
  doc_metadata :: "session_metadata option"
  doc_createdAt :: int

text \<open>The object given to \<^verbatim>\<open>TranscriptionModel.create\<close>; absent fields are \<open>None\<close>.\<close>

record create_input =
  in_audioUrl :: string
  in_transcription :: string
  in_source :: "transcription_source option"
  in_language :: "language_code option"
  in_metadata :: "session_metadata option"

text \<open>
  What the database answers to one insert: a fault (the insert is rejected with that value
  and nothing is stored), or else the identifier it assigns and the time of insertion.
\<close>

record db_reply =
  db_fault :: "js_value option"
  db_id :: string
  db_now :: int

text \<open>
  \<^verbatim>\<open>Model.create\<close> with the schema of the model: \<^verbatim>\<open>audioUrl\<close> is trimmed and required,
  \<^verbatim>\<open>transcription\<close> is required (the empty string does not pass \<^verbatim>\<open>required\<close>),
  \<^verbatim>\<open>source\<close> defaults to \<^verbatim>\<open>'mock'\<close>, \<^verbatim>\<open>timestamps\<close> sets \<^verbatim>\<open>createdAt\<close>. A document that
  fails validation is not sent to the database. The store is the list of documents in
  insertion order.
\<close>

definition TranscriptionModel_create ::
  "db_reply \<Rightarrow> transcription_doc list \<Rightarrow> create_input \<Rightarrow> (js_value + transcription_doc) \<times> transcription_doc list"
where
  "TranscriptionModel_create reply store inp =
     (if trim (in_audioUrl inp) = [] then (Inl (ErrorObj LibraryError ''Audio URL is required''), store)
      else if in_transcription inp = [] then
        (Inl (ErrorObj LibraryError ''Transcription text is required''), store)
      else
        (case db_fault reply of
           Some e \<Rightarrow> (Inl e, store)
         | None \<Rightarrow>
             (let doc = \<lparr>doc_id = db_id reply,
                         doc_audioUrl = trim (in_audioUrl inp),
                         doc_transcription = in_transcription inp,
                         doc_source = (case in_source inp of None \<Rightarrow> mock | Some s \<Rightarrow> s),
                         doc_language = in_language inp,
                         doc_metadata = in_metadata inp,
                         doc_createdAt = db_now reply\<rparr>
              in (Inr doc, store @ [doc]))))"

subsection \<open>\<^verbatim>\<open>findRecentTranscriptions\<close>\<close>





















section \<open>URLs (utils/retry.ts)\<close>

text \<open>
  The platform's \<^verbatim>\<open>new URL(url)\<close> is a parameter of the model: it throws (\<open>None\<close>) or
  gives the parsed URL, of which the code reads the protocol and the path name.
\<close>

record parsed_url =
  protocol :: string
  pathname :: string

type_synonym url_parser = "string \<Rightarrow> parsed_url option"

definition isValidUrl :: "url_parser \<Rightarrow> string \<Rightarrow> bool" where
  "isValidUrl new_URL url =
     (case new_URL url of
        None \<Rightarrow> False
      | Some parsed \<Rightarrow> protocol parsed = ''http:'' \<or> protocol parsed = ''https:'')"

text \<open>
  \<^verbatim>\<open>pathname.substring(pathname.lastIndexOf('/') + 1)\<close>: what follows the last slash, the
  whole path name when it has none; \<^verbatim>\<open>filename || 'unknown'\<close>.
\<close>

definition getFilenameFromUrl :: "url_parser \<Rightarrow> string \<Rightarrow> string" where
  "getFilenameFromUrl new_URL url =
     (case new_URL url of
        None \<Rightarrow> ''unknown''
      | Some parsed \<Rightarrow>
          (let filename = rev (takeWhile (\<lambda>c. c \<noteq> CHR ''/'') (rev (pathname parsed)))
           in if filename = [] then ''unknown'' else filename))"

section \<open>The transport adapters (adapters/http-client.mock.ts, http-client.real.ts)\<close>

text \<open>Of an \<^verbatim>\<open>HttpResponse\<close>: the status, the content-type header, the body (a buffer).\<close>

record http_response =
  resp_status :: int
  resp_content_type :: "string option"
  resp_data :: "string option"

datatype http_client = MockHttpClient | RealHttpClient

text \<open>
  \<^verbatim>\<open>get(url, { responseType: 'arraybuffer', ... })\<close>. The mock answers from the URL alone;
  the real client's answer to request number \<open>i\<close> of a call is what the network gives,
  \<open>network i\<close>.
\<close>

definition http_get ::
  "http_client \<Rightarrow> url_parser \<Rightarrow> (nat \<Rightarrow> js_value + http_response) \<Rightarrow> string \<Rightarrow> nat \<Rightarrow> js_value + http_response"
where
  "http_get client new_URL network url i =
     (case client of
        MockHttpClient \<Rightarrow>
          Inr \<lparr>resp_status = 200, resp_content_type = Some ''audio/mpeg'',
               resp_data = Some (''MOCK_AUDIO_DATA_FOR_'' @ getFilenameFromUrl new_URL url)\<rparr>
      | RealHttpClient \<Rightarrow> network i)"

section \<open>The audio service (services/audio.service.ts)\<close>

record download_result =
  dl_success :: bool
  dl_contentType :: string
  dl_size :: nat
  dl_data :: "string option"

text \<open>
  What surrounds one pipeline call: the URL parser, the network, the speech provider (the
  outcome of recognition number \<open>i\<close> by a configured real client), the clock as
  \<^verbatim>\<open>new Date().toISOString()\<close>, and the database's answer to the insert.
\<close>

record world =
  new_URL :: url_parser
  network :: "nat \<Rightarrow> js_value + http_response"
  provider :: "nat \<Rightarrow> js_value + speech_result"
  iso_now :: string
  db :: db_reply

text \<open>
  The operation given to \<^verbatim>\<open>retryWithBackoff\<close> in \<^verbatim>\<open>downloadAudio\<close>: reading
  \<^verbatim>\<open>data.length\<close> of a response without body throws a \<^verbatim>\<open>TypeError\<close>.
\<close>

definition download_attempt :: "http_client \<Rightarrow> world \<Rightarrow> string \<Rightarrow> download_result operation" where
  "download_attempt client w audioUrl i =
     (case http_get client (new_URL w) (network w) audioUrl i of
        Inl e \<Rightarrow> Inl e
      | Inr response \<Rightarrow>
          (case resp_data response of
             None \<Rightarrow> Inl (ErrorObj LibraryError ''Cannot read properties of undefined'')
           | Some d \<Rightarrow>
               Inr \<lparr>dl_success = True,
                    dl_contentType = (case resp_content_type response of
                                        None \<Rightarrow> ''audio/mpeg''
                                      | Some ct \<Rightarrow> if ct = [] then ''audio/mpeg'' else ct),
                    dl_size = length d,
                    dl_data = Some d\<rparr>))"

fun error_message :: "js_value \<Rightarrow> string" where
  "error_message (ErrorObj c m) = m"
| "error_message v = ''Unknown download error''"

fun is_url_or_download_error :: "js_value \<Rightarrow> bool" where
  "is_url_or_download_error (ErrorObj c m) = (c = InvalidUrlError \<or> c = DownloadError)"
| "is_url_or_download_error v = False"

text \<open>\<^verbatim>\<open>downloadAudio\<close>; \<open>retry\<close> is \<^verbatim>\<open>config.retry\<close>, which has no observer.\<close>

definition downloadAudio :: "http_client \<Rightarrow> retry_options \<Rightarrow> world \<Rightarrow> string \<Rightarrow> js_value + download_result" where
  "downloadAudio client retry w audioUrl =
     (if \<not> isValidUrl (new_URL w) audioUrl then
        Inl (ErrorObj InvalidUrlError (''Invalid URL format: '' @ audioUrl))
      else
        (case fst (retryWithBackoff (download_attempt client w audioUrl) (retry\<lparr>onRetry := False\<rparr>)) of
           Inr result \<Rightarrow> Inr result
         | Inl error \<Rightarrow>
             (if is_url_or_download_error error then Inl error
              else Inl (ErrorObj DownloadError (error_message error)))))"

section \<open>The batch pipelines (services/transcription.service.ts, azure-speech.service.ts)\<close>

text \<open>\<^verbatim>\<open>TranscriptionResponse\<close>.\<close>

record transcription_response =
  res_id :: string
  res_audioUrl :: string
  res_transcription :: string
  res_source :: transcription_source
  res_language :: "language_code option"
  res_createdAt :: int

definition generateMockTranscription :: "world \<Rightarrow> string \<Rightarrow> string" where
  "generateMockTranscription w audioUrl =
     ''This is a mock transcription of the audio file: '' @ getFilenameFromUrl (new_URL w) audioUrl
     @ ''. The audio was processed at '' @ iso_now w @ ''.  '' @ [CHR 0x0A]
     @ ''    In a real implementation, this would contain the actual transcribed text from the audio content. ''
     @ [CHR 0x0A]
     @ ''    This mock service simulates the transcription process for testing and development purposes.''"

text \<open>
  \<^verbatim>\<open>TranscriptionService.transcribeAudio\<close>: the result and the store after the call. Its
  response has no \<^verbatim>\<open>language\<close>.
\<close>

definition TranscriptionService_transcribeAudio ::
  "http_client \<Rightarrow> retry_options \<Rightarrow> world \<Rightarrow> transcription_doc list \<Rightarrow> string
     \<Rightarrow> (js_value + transcription_response) \<times> transcription_doc list"
where
  "TranscriptionService_transcribeAudio client retry w store audioUrl =
     (case downloadAudio client retry w audioUrl of
        Inl e \<Rightarrow> (Inl e, store)
      | Inr audioResult \<Rightarrow>
          (case TranscriptionModel_create (db w) store
                  \<lparr>in_audioUrl = audioUrl,
                   in_transcription = generateMockTranscription w audioUrl,
                   in_source = Some mock, in_language = None, in_metadata = None\<rparr> of
             (Inl e, store') \<Rightarrow> (Inl e, store')
           | (Inr transcriptionDoc, store') \<Rightarrow>
               (Inr \<lparr>res_id = doc_id transcriptionDoc,
                     res_audioUrl = doc_audioUrl transcriptionDoc,
                     res_transcription = doc_transcription transcriptionDoc,
                     res_source = doc_source transcriptionDoc,
                     res_language = None,
                     res_createdAt = doc_createdAt transcriptionDoc\<rparr>, store')))"

text \<open>
  \<^verbatim>\<open>client.transcribe\<close> as the pipeline sees it: the mock answers at once; the real client
  rejects without credentials and otherwise gives the provider's outcome.
\<close>

definition client_transcribe :: "speech_client \<Rightarrow> world \<Rightarrow> language_code \<Rightarrow> speech_result operation" where
  "client_transcribe client w l i =
     (case client of
        MockSpeechClient \<Rightarrow> MockSpeechClient_transcribe l
      | RealSpeechClient k r \<Rightarrow>
          (if \<not> isConfigured client
           then Inl (ErrorObj ExternalServiceError ''Azure Speech credentials not configured'')
           else provider w i))"

text \<open>Which recogniser a client is: the simulated one or the provider.\<close>

fun recogniser :: "speech_client \<Rightarrow> transcription_source" where
  "recogniser MockSpeechClient = mock"
| "recogniser (RealSpeechClient k r) = azure"

text \<open>
  \<^verbatim>\<open>AzureSpeechService.transcribeAudio\<close>, lines 26 to 90. The \<^verbatim>\<open>catch\<close> of line 63 logs
  and rethrows. \<open>language = None\<close> is the omitted argument, with default \<^verbatim>\<open>'en-US'\<close>.
\<close>

definition AzureSpeechService_transcribeAudio ::
  "speech_client \<Rightarrow> http_client \<Rightarrow> retry_options \<Rightarrow> world \<Rightarrow> transcription_doc list \<Rightarrow> string
     \<Rightarrow> language_code option \<Rightarrow> (js_value + transcription_response) \<times> transcription_doc list"
where
  "AzureSpeechService_transcribeAudio client http retry w store audioUrl language_arg =
     (let language = (case language_arg of None \<Rightarrow> en_US | Some l \<Rightarrow> l);
          source = (if isConfigured client then azure else mock)
      in
        (case downloadAudio http retry w audioUrl of
           Inl e \<Rightarrow> (Inl e, store)
         | Inr audioResult \<Rightarrow>
             (if dl_data audioResult = None then
                (Inl (ErrorObj PlainError ''Failed to download audio file''), store)
              else
                (case fst (retryWithBackoff (client_transcribe client w language)
                             \<lparr>maxAttempts = 3, initialDelay = 1000, maxDelay = 10000, onRetry = True\<rparr>) of
                   Inl e \<Rightarrow> (Inl e, store)
                 | Inr result \<Rightarrow>
                     (case TranscriptionModel_create (db w) store
                             \<lparr>in_audioUrl = audioUrl,
                              in_transcription = result_text result,
                              in_source = Some source, in_language = Some language,
                              in_metadata = None\<rparr> of
                        (Inl e, store') \<Rightarrow> (Inl e, store')
                      | (Inr transcriptionDoc, store') \<Rightarrow>
                          (Inr \<lparr>res_id = doc_id transcriptionDoc,
                                res_audioUrl = doc_audioUrl transcriptionDoc,
                                res_transcription = doc_transcription transcriptionDoc,
                                res_source = doc_source transcriptionDoc,
                                res_language = doc_language transcriptionDoc,
                                res_createdAt = doc_createdAt transcriptionDoc\<rparr>, store'))))))"

text \<open>
  The adapter factory (adapters/index.ts): \<^verbatim>\<open>createSpeechClient\<close> takes the real client
  when both credentials are configured and the mock otherwise; \<^verbatim>\<open>createHttpClient\<close> takes
  the mock in test mode.
\<close>

definition createSpeechClient :: "string option \<Rightarrow> string option \<Rightarrow> speech_client" where
  "createSpeechClient speechKey speechRegion =
     (if truthy_string speechKey \<and> truthy_string speechRegion
      then RealSpeechClient speechKey speechRegion else MockSpeechClient)"

definition createHttpClient :: "bool \<Rightarrow> http_client" where
  "createHttpClient isTest = (if isTest then MockHttpClient else RealHttpClient)"

text \<open>A process without Azure credentials, in test mode, and a quiet world around it.\<close>

definition example_parser :: url_parser where
  "example_parser url =
     (if url = ''https://example.com/a.mp3'' then Some \<lparr>protocol = ''https:'', pathname = ''/a.mp3''\<rparr>
      else None)"

definition quiet_world :: world where
  "quiet_world = \<lparr>new_URL = example_parser,
                   network = (\<lambda>i. Inl (ErrorObj LibraryError ''ECONNREFUSED'')),
                   provider = (\<lambda>i. Inl (ErrorObj ExternalServiceError ''unreachable'')),
                   iso_now = ''2025-12-08T10:30:00.000Z'',
                   db = \<lparr>db_fault = None, db_id = ''507f1f77bcf86cd799439011'', db_now = 1765189800000\<rparr>\<rparr>"

definition default_retry :: retry_options where
  "default_retry = \<lparr>maxAttempts = 3, initialDelay = 1000, maxDelay = 10000, onRetry = False\<rparr>"

text \<open>
  The outcome the specification asks of one pipeline call, given the store before it: an
  error with the store as it was, or a response with exactly one document added at the end
  of the store, the one the response shows.
\<close>

definition one_record_or_one_error ::
  "transcription_doc list \<Rightarrow> (js_value + transcription_response) \<times> transcription_doc list \<Rightarrow> bool" where
  "one_record_or_one_error store outcome =
     (case fst outcome of
        Inl e \<Rightarrow> snd outcome = store
      | Inr r \<Rightarrow>
          (case drop (length store) (snd outcome) of
             [d] \<Rightarrow> take (length store) (snd outcome) = store
                    \<and> res_id r = doc_id d \<and> res_audioUrl r = doc_audioUrl d
                    \<and> res_transcription r = doc_transcription d \<and> res_source r = doc_source d
                    \<and> res_createdAt r = doc_createdAt d
           | _ \<Rightarrow> False))"

section \<open>The streaming session (websocket/transcription.handler.ts)\<close>

subsection \<open>Inbound and outbound messages\<close>

text \<open>
  What \<^verbatim>\<open>JSON.parse\<close> returns. An inbound message is \<open>None\<close> when \<^verbatim>\<open>JSON.parse\<close> throws on
  it, and otherwise the value parsed. Numbers are taken as integers.
\<close>

datatype json =
    JNull
  | JBool bool
  | JNum int
  | JStr string
  | JArr "json list"
  | JObj "(string \<times> json) list"

text \<open>
  Reading a property of a parsed value that is not \<^verbatim>\<open>null\<close>: of an object the member with
  that key (the last one when the key is repeated), \<^verbatim>\<open>undefined\<close> (\<open>None\<close>) otherwise; the
  keys the handler reads are no properties of strings, arrays, numbers or booleans.
\<close>

fun get_prop :: "json \<Rightarrow> string \<Rightarrow> json option" where
  "get_prop (JObj members) k = map_of (rev members) k"
| "get_prop j k = None"

fun js_truthy :: "json option \<Rightarrow> bool" where
  "js_truthy None = False"
| "js_truthy (Some JNull) = False"
| "js_truthy (Some (JBool b)) = b"
| "js_truthy (Some (JNum n)) = (n \<noteq> 0)"
| "js_truthy (Some (JStr s)) = (s \<noteq> [])"
| "js_truthy (Some (JArr xs)) = True"
| "js_truthy (Some (JObj members)) = True"

text \<open>
  The outbound \<^verbatim>\<open>WebSocketMessage\<close>s: \<open>Partial text confidence\<close> with the confidence in
  hundredths, \<open>Final text id\<close>, \<open>ErrorMsg message code\<close>.
\<close>

datatype ws_message =
    Partial string nat
  | Final string string
  | ErrorMsg string string

fun is_Partial :: "ws_message \<Rightarrow> bool" where
  "is_Partial (Partial t c) = True"
| "is_Partial m = False"

fun is_Final :: "ws_message \<Rightarrow> bool" where
  "is_Final (Final t i) = True"
| "is_Final m = False"

definition welcomeMessage :: ws_message where
  "welcomeMessage = Partial ''Connected. Ready to receive audio chunks.'' 100"

definition errorMessage :: ws_message where
  "errorMessage = ErrorMsg ''Failed to process audio chunk'' ''PROCESSING_ERROR''"

subsection \<open>The state of one connection\<close>

text \<open>
  The background loop \<^verbatim>\<open>processChunks\<close> is not yet started, suspended in its
  \<^verbatim>\<open>sleep(500)\<close>, or has left its loop. Every message with a truthy \<^verbatim>\<open>isLast\<close> leaves a
  suspended handler behind: first in \<^verbatim>\<open>sleep(1000)\<close>, then in
  \<^verbatim>\<open>await TranscriptionModel.create\<close> with the document it has built, then finished.
\<close>

datatype emitter_state = NotStarted | Sleeping | Stopped

datatype finalizer = AwaitingSleep | AwaitingCreate create_input | Finished

text \<open>
  The variables of \<^verbatim>\<open>transcriptionWebSocket\<close>, the suspended activities, and what is
  outside: whether the socket is open, the messages delivered to the peer so far, and the
  store.
\<close>

record session =
  sessionId :: string
  ws_startTime :: int
  chunkCount :: nat
  audioChunks :: "json option list"
  isComplete :: bool
  emitter :: emitter_state
  finalizers :: "finalizer list"
  socket_open :: bool
  outbox :: "ws_message list"
  documents :: "transcription_doc list"

text \<open>
  \<^verbatim>\<open>socket.send\<close>: a message sent on an open socket is delivered next; on a socket that
  is no longer open nothing is delivered.
\<close>

definition send :: "ws_message \<Rightarrow> session \<Rightarrow> session" where
  "send m s = (if socket_open s then s\<lparr>outbox := outbox s @ [m]\<rparr> else s)"

definition words :: "string list" where
  "words = [''Hello'', ''this'', ''is'', ''a'', ''streaming'', ''transcription'', ''test'', ''with'',
            ''partial'', ''results'', ''being'', ''sent'', ''in'', ''real'', ''time'', ''as'', ''audio'',
            ''chunks'', ''are'', ''processed'']"

fun join :: "string \<Rightarrow> string list \<Rightarrow> string" where
  "join sep [] = []"
| "join sep [w] = w"
| "join sep (w # ws) = w @ sep @ join sep ws"

definition generatePartialTranscription :: "json option list \<Rightarrow> string" where
  "generatePartialTranscription chunks =
     (let numWords = min (length chunks * 2) (length words) in join '' '' (take numWords words))"

definition generateFinalTranscription :: "string \<Rightarrow> json option list \<Rightarrow> string" where
  "generateFinalTranscription sid chunks =
     ''This is a mock streaming transcription result from '' @ decimal (length chunks) @ '' audio chunks. ''
     @ ''Session ID: '' @ sid @ ''. ''
     @ ''In a real implementation, this would contain the complete transcription of all received audio data. ''
     @ ''The streaming service processed the audio in real-time and generated partial results throughout the session.''"

text \<open>
  \<^verbatim>\<open>Math.min(0.5 + audioChunks.length * 0.05, 0.95)\<close> rounded to two decimals, in
  hundredths.
\<close>

definition partialMessage :: "json option list \<Rightarrow> ws_message" where
  "partialMessage chunks = Partial (generatePartialTranscription chunks) (min (50 + length chunks * 5) 95)"

text \<open>
  \<^verbatim>\<open>processChunks\<close> from a test of its loop condition to its next suspension: it sends a
  partial and sleeps, or leaves the loop.
\<close>

definition processChunks :: "session \<Rightarrow> session" where
  "processChunks s =
     (if \<not> isComplete s \<and> audioChunks s \<noteq> []
      then (send (partialMessage (audioChunks s)) s)\<lparr>emitter := Sleeping\<rparr>
      else s\<lparr>emitter := Stopped\<rparr>)"

text \<open>Lines 65 to 88: the connection is established and the welcome message is sent.\<close>

definition transcriptionWebSocket :: "string \<Rightarrow> int \<Rightarrow> transcription_doc list \<Rightarrow> session" where
  "transcriptionWebSocket sid now docs =
     send welcomeMessage
       \<lparr>sessionId = sid, ws_startTime = now, chunkCount = 0, audioChunks = [], isComplete = False,
        emitter = NotStarted, finalizers = [], socket_open = True, outbox = [], documents = docs\<rparr>"

text \<open>
  The message handler of lines 167 to 242 up to its first suspension. \<^verbatim>\<open>JSON.parse\<close>
  throwing, or reading \<^verbatim>\<open>data.type\<close> of \<^verbatim>\<open>null\<close>, ends in the \<^verbatim>\<open>catch\<close> block, which
  sends the error message. A value whose \<^verbatim>\<open>type\<close> is not \<^verbatim>\<open>'chunk'\<close> is logged only.
\<close>

definition on_message :: "session \<Rightarrow> json option \<Rightarrow> session" where
  "on_message s message =
     (case message of
        None \<Rightarrow> send errorMessage s
      | Some JNull \<Rightarrow> send errorMessage s
      | Some data \<Rightarrow>
          (if get_prop data ''type'' = Some (JStr ''chunk'') then
             (let s1 = s\<lparr>chunkCount := chunkCount s + 1,
                         audioChunks := audioChunks s @ [get_prop data ''data'']\<rparr>;
                  s2 = (if chunkCount s1 = 1 then processChunks s1 else s1)
              in if js_truthy (get_prop data ''isLast'')
                 then s2\<lparr>isComplete := True, finalizers := finalizers s2 @ [AwaitingSleep]\<rparr>
                 else s2)
           else s))"

text \<open>
  Lines 196 to 209, when the \<^verbatim>\<open>sleep(1000)\<close> of handler number \<open>i\<close> is over at time
  \<open>now\<close>: the final text and the document are built from the variables as they are then,
  and the insert is issued.
\<close>

definition on_finalizer_wakes :: "session \<Rightarrow> nat \<Rightarrow> int \<Rightarrow> session" where
  "on_finalizer_wakes s i now =
     (if i < length (finalizers s) \<and> finalizers s ! i = AwaitingSleep then
        s\<lparr>finalizers := (finalizers s)[i := AwaitingCreate
            \<lparr>in_audioUrl = ''ws://streaming-session/'' @ sessionId s,
             in_transcription = generateFinalTranscription (sessionId s) (audioChunks s),
             in_source = Some mock,
             in_language = None,
             in_metadata = Some \<lparr>meta_sessionId = sessionId s,
                                  meta_duration = now - ws_startTime s,
                                  meta_chunkCount = chunkCount s\<rparr>\<rparr>]\<rparr>
      else s)"

text \<open>
  Lines 200 to 241, when the insert of handler number \<open>i\<close> settles with the database's
  answer: on success the final message is sent and the socket is closed; on failure the
  \<^verbatim>\<open>catch\<close> block sends the error message.
\<close>

definition on_create_settles :: "session \<Rightarrow> nat \<Rightarrow> db_reply \<Rightarrow> session" where
  "on_create_settles s i reply =
     (if i < length (finalizers s) then
        (case finalizers s ! i of
           AwaitingCreate inp \<Rightarrow>
             (case TranscriptionModel_create reply (documents s) inp of
                (Inl e, docs) \<Rightarrow> send errorMessage (s\<lparr>finalizers := (finalizers s)[i := Finished]\<rparr>)
              | (Inr transcriptionDoc, docs) \<Rightarrow>
                  (send (Final (in_transcription inp) (doc_id transcriptionDoc))
                     (s\<lparr>finalizers := (finalizers s)[i := Finished], documents := docs\<rparr>))
                  \<lparr>socket_open := False\<rparr>)
         | _ \<Rightarrow> s)
      else s)"

text \<open>
  What can happen on a connection, one event at a time (the handlers run to their next
  suspension without interruption): a message arrives; the \<^verbatim>\<open>sleep(500)\<close> of the
  background loop is over; the \<^verbatim>\<open>sleep(1000)\<close> of a handler is over; an insert settles; the
  \<^verbatim>\<open>close\<close> event; the \<^verbatim>\<open>error\<close> event. An event for an activity that is not waiting for
  it changes nothing.
\<close>

datatype ws_event =
    Message "json option"
  | EmitterWakes
  | FinalizerWakes nat int
  | CreateSettles nat db_reply
  | SocketClosed
  | SocketError

fun is_Message :: "ws_event \<Rightarrow> bool" where
  "is_Message (Message m) = True"
| "is_Message e = False"

fun is_CreateSettles :: "ws_event \<Rightarrow> bool" where
  "is_CreateSettles (CreateSettles i reply) = True"
| "is_CreateSettles e = False"

fun ws_step :: "session \<Rightarrow> ws_event \<Rightarrow> session" where
  "ws_step s (Message m) = on_message s m"
| "ws_step s EmitterWakes = (if emitter s = Sleeping then processChunks s else s)"
| "ws_step s (FinalizerWakes i now) = on_finalizer_wakes s i now"
| "ws_step s (CreateSettles i reply) = on_create_settles s i reply"
| "ws_step s SocketClosed = s\<lparr>isComplete := True, socket_open := False\<rparr>"
| "ws_step s SocketError = s\<lparr>isComplete := True\<rparr>"

definition ws_run :: "session \<Rightarrow> ws_event list \<Rightarrow> session" where
  "ws_run s evs = foldl ws_step s evs"

text \<open>A well-formed chunk message \<^verbatim>\<open>{type: 'chunk', data, isLast}\<close>, and two that are not.\<close>

definition chunk_message :: "string \<Rightarrow> bool \<Rightarrow> json option" where
  "chunk_message d l = Some (JObj [(''type'', JStr ''chunk''), (''data'', JStr d), (''isLast'', JBool l)])"

definition ping_message :: "json option" where
  "ping_message = Some (JObj [(''type'', JStr ''ping'')])"

definition bare_chunk_message :: "json option" where
  "bare_chunk_message = Some (JObj [(''type'', JStr ''chunk'')])"

text \<open>The messages sent between two states of a connection.\<close>

definition sent_between :: "session \<Rightarrow> session \<Rightarrow> ws_message list" where
  "sent_between s s' = drop (length (outbox s)) (outbox s')"

text \<open>
  A message that makes the handler throw (it cannot be parsed, or it parses to \<^verbatim>\<open>null\<close>);
  a message whose \<^verbatim>\<open>type\<close> is \<^verbatim>\<open>'chunk'\<close>; and a well-formed chunk message of the
  protocol, with a string as \<^verbatim>\<open>data\<close> and a boolean as \<^verbatim>\<open>isLast\<close>.
\<close>

fun throws_in_handler :: "json option \<Rightarrow> bool" where
  "throws_in_handler None = True"
| "throws_in_handler (Some JNull) = True"
| "throws_in_handler (Some j) = False"

definition has_chunk_type :: "json option \<Rightarrow> bool" where
  "has_chunk_type message =
     (case message of None \<Rightarrow> False | Some data \<Rightarrow> get_prop data ''type'' = Some (JStr ''chunk''))"

definition well_formed_chunk :: "json option \<Rightarrow> bool" where
  "well_formed_chunk message =
     (case message of
        None \<Rightarrow> False
      | Some data \<Rightarrow>
          get_prop data ''type'' = Some (JStr ''chunk'')
          \<and> (case get_prop data ''data'' of Some (JStr d) \<Rightarrow> True | _ \<Rightarrow> False)
          \<and> (case get_prop data ''isLast'' of Some (JBool l) \<Rightarrow> True | _ \<Rightarrow> False))"

text \<open>
  The events of a session that receives one chunk with \<^verbatim>\<open>isLast = false\<close> and then one
  with \<^verbatim>\<open>isLast = true\<close>, up to the moment the insert is issued: the background loop
  wakes \<open>a\<close> times between the two chunks, \<open>b\<close> times during the handler's
  \<^verbatim>\<open>sleep(1000)\<close>, which ends at time \<open>now\<close>, and \<open>c\<close> times while the insert is under way.
\<close>

definition two_chunk_schedule :: "string \<Rightarrow> nat \<Rightarrow> string \<Rightarrow> nat \<Rightarrow> int \<Rightarrow> nat \<Rightarrow> ws_event list" where
  "two_chunk_schedule d1 a d2 b now c =
     [Message (chunk_message d1 False)] @ replicate a EmitterWakes
     @ [Message (chunk_message d2 True)] @ replicate b EmitterWakes
     @ [FinalizerWakes 0 now] @ replicate c EmitterWakes"

definition good_reply :: db_reply where
  "good_reply = \<lparr>db_fault = None, db_id = ''id1'', db_now = 1600\<rparr>"

definition bad_reply :: db_reply where
  "bad_reply = \<lparr>db_fault = Some (ErrorObj LibraryError ''MongoNetworkError''), db_id = ''id1'', db_now = 1600\<rparr>"

definition fresh_session :: session where
  "fresh_session = transcriptionWebSocket ''s1'' 0 []"

text \<open>
  A message the handler takes as the last chunk (its \<^verbatim>\<open>type\<close> is \<^verbatim>\<open>'chunk'\<close> and its
  \<^verbatim>\<open>isLast\<close> is truthy), and the \<^verbatim>\<open>data\<close> of a message.
\<close>

definition last_chunk :: "json option \<Rightarrow> bool" where
  "last_chunk message =
     (case message of
        None \<Rightarrow> False
      | Some data \<Rightarrow> get_prop data ''type'' = Some (JStr ''chunk'') \<and> js_truthy (get_prop data ''isLast''))"

definition chunk_data :: "json option \<Rightarrow> json option" where
  "chunk_data message = (case message of None \<Rightarrow> None | Some data \<Rightarrow> get_prop data ''data'')"

section \<open>Properties of trimming\<close>

declare trimStart.simps [simp del] trimEnd.simps [simp del]

lemma find_SomeD: "find P xs = Some w \<Longrightarrow> P w \<and> w \<in> set xs"
  by (auto simp: find_Some_iff)

lemma white_space_nonempty: "w \<in> set white_space \<Longrightarrow> w \<noteq> []"
  by (auto simp: white_space_def)

lemma leading_space_other_byte:
  assumes "c \<notin> set (map hd white_space)"
  shows "leading_space (c # cs) = 0"
proof -
  have "\<not> (\<exists>w \<in> set white_space. take (length w) (c # cs) = w)"
  proof
    assume "\<exists>w \<in> set white_space. take (length w) (c # cs) = w"
    then obtain w where w: "w \<in> set white_space" "take (length w) (c # cs) = w" by blast
    then have "w \<noteq> []" by (simp add: white_space_nonempty)
    with w(2) have "hd w = c" by (cases w) auto
    with w(1) assms show False by force
  qed
  then have "find (\<lambda>w. take (length w) (c # cs) = w) white_space = None"
    by (simp add: find_None_iff)
  then show ?thesis by (simp add: leading_space_def)
qed

lemma trimEnd_keeps_head:
  assumes "c \<notin> set (map hd white_space)"
  shows "s \<noteq> [] \<Longrightarrow> hd s = c \<Longrightarrow> trimEnd s \<noteq> []"
proof (induction s rule: trimEnd.induct)
  case (1 s)
  show ?case
  proof (cases "trailing_space s = 0")
    case True
    with "1.prems" show ?thesis by (simp add: trimEnd.simps)
  next
    case False
    then obtain w where f: "find (\<lambda>w. length w \<le> length s \<and> drop (length s - length w) s = w) white_space = Some w"
      and k: "trailing_space s = length w"
      by (auto simp: trailing_space_def split: option.splits)
    from find_SomeD [OF f] have w: "w \<in> set white_space" "length w \<le> length s"
      "drop (length s - length w) s = w" by auto
    have "length w \<noteq> length s"
    proof
      assume "length w = length s"
      with w(3) have "s = w" by simp
      with "1.prems" w(1) assms show False by force
    qed
    with w(2) have shorter: "length w < length s" by simp
    then have ne: "take (length s - length w) s \<noteq> []"
      using "1.prems"(1) by simp
    have "hd (take (length s - length w) s) = c"
      using shorter "1.prems" by (cases s) (auto simp: take_Cons')
    with "1.IH" [OF False] ne k have "trimEnd (take (length s - length w) s) \<noteq> []"
      by simp
    with False k show ?thesis by (simp add: trimEnd.simps)
  qed
qed

lemma trim_nonempty:
  assumes "c \<notin> set (map hd white_space)"
  shows "trim (c # cs) \<noteq> []"
proof -
  have "trimStart (c # cs) = c # cs"
    using leading_space_other_byte [OF assms] by (simp add: trimStart.simps)
  moreover have "trimEnd (c # cs) \<noteq> []"
    by (rule trimEnd_keeps_head [OF assms]) simp_all
  ultimately show ?thesis by (simp add: trim_def)
qed

lemma session_url_nonempty: "trim (''ws://streaming-session/'' @ sid) \<noteq> []"
proof -
  have "CHR ''w'' \<notin> set (map hd white_space)"
    by (simp add: white_space_def)
  from trim_nonempty [OF this] show ?thesis by simp
qed

section \<open>Properties of the backoff executor\<close>

declare retry_loop.simps [simp del]

lemma retry_loop_failures:
  assumes "\<forall>i<j. fn (c + i) = Inl (err (a + i))"
    and "int a + int j \<le> maxAttempts opts" and "1 \<le> a"
  shows "retry_loop fn opts (int a) le c =
     (case retry_loop fn opts (int (a + j)) (if j = 0 then le else as_Error (err (a + j - 1))) (c + j) of
        (r, evs) \<Rightarrow> (r, concat (map (failed_attempt_trace opts err) [a..<a + j]) @ evs))"
  using assms
proof (induction j arbitrary: a c le)
  case 0
  then show ?case by simp
next
  case (Suc j)
  have f0: "fn c = Inl (err a)" using Suc.prems(1) by force
  have ne: "int a \<noteq> maxAttempts opts" "int a \<le> maxAttempts opts" using Suc.prems(2) by auto
  have sh: "\<forall>i<j. fn (Suc c + i) = Inl (err (Suc a + i))"
    using Suc.prems(1) by (metis Suc_less_eq add_Suc_right add_Suc)
  have ih: "retry_loop fn opts (int (Suc a)) (as_Error (err a)) (Suc c) =
     (case retry_loop fn opts (int (Suc a + j))
             (if j = 0 then as_Error (err a) else as_Error (err (Suc a + j - 1))) (Suc c + j) of
        (r, evs) \<Rightarrow> (r, concat (map (failed_attempt_trace opts err) [Suc a..<Suc a + j]) @ evs))"
    using Suc.IH [OF sh, of "as_Error (err a)"] Suc.prems(2,3) by simp
  have step: "retry_loop fn opts (int a) le c =
     (case retry_loop fn opts (int (Suc a)) (as_Error (err a)) (Suc c) of
        (r, evs) \<Rightarrow> (r, failed_attempt_trace opts err a @ evs))"
    using f0 ne
    by (subst retry_loop.simps)
       (simp add: between_attempts_def backoff_delay_def failed_attempt_trace_def
                  nat_diff_distrib' Suc.prems(3) add.commute split: prod.splits)
  have up: "[a..<a + Suc j] = a # [Suc a..<Suc a + j]"
    by (simp add: upt_rec)
  show ?case
    unfolding step ih up
    by (cases j) (auto split: prod.splits)
qed

lemma invocations_append: "invocations (xs @ ys) = invocations xs + invocations ys"
  by (simp add: invocations_def)

lemma invocations_Nil: "invocations [] = 0"
  by (simp add: invocations_def)

lemma delays_append: "delays (xs @ ys) = delays xs @ delays ys"
  by (induction xs rule: delays.induct) simp_all

lemma invocations_failed_attempt: "invocations (failed_attempt_trace opts err n) = 1"
  by (simp add: invocations_def failed_attempt_trace_def)

lemma delays_failed_attempt:
  "delays (failed_attempt_trace opts err n) = [min (initialDelay opts * 2 ^ (n - 1)) (maxDelay opts)]"
  by (simp add: failed_attempt_trace_def)

lemma invocations_failed_attempts:
  "invocations (concat (map (failed_attempt_trace opts err) [a..<a + j])) = j"
  by (induction j) (simp_all add: invocations_append invocations_failed_attempt invocations_Nil)

lemma delays_failed_attempts:
  "delays (concat (map (failed_attempt_trace opts err) [a..<a + j])) =
     map (\<lambda>n. min (initialDelay opts * 2 ^ (n - 1)) (maxDelay opts)) [a..<a + j]"
  by (induction j) (simp_all add: delays_append delays_failed_attempt)

lemma retry_loop_success:
  "int a \<le> maxAttempts opts \<Longrightarrow> fn c = Inr v \<Longrightarrow> retry_loop fn opts (int a) le c = (Inr v, [Invoked])"
  by (subst retry_loop.simps) simp

lemma retry_loop_last_failure:
  "int a = maxAttempts opts \<Longrightarrow> fn c = Inl e \<Longrightarrow>
     retry_loop fn opts (int a) le c = (Inl (as_Error e), [Invoked])"
  by (subst retry_loop.simps) simp

lemma retryWithBackoff_success_trace:
  assumes "1 \<le> k" and "int k \<le> maxAttempts opts"
    and "\<forall>n. 1 \<le> n \<and> n < k \<longrightarrow> fn (n - 1) = Inl (err n)"
    and "fn (k - 1) = Inr v"
  shows "retryWithBackoff fn opts =
           (Inr v, concat (map (failed_attempt_trace opts err) [1..<k]) @ [Invoked])"
proof -
  obtain j where k: "k = Suc j" using assms(1) by (cases k) auto
  have pre: "\<forall>i<j. fn (0 + i) = Inl (err (1 + i))"
    using assms(3) k by auto
  have "retry_loop fn opts (int 1) Undefined 0 =
     (case retry_loop fn opts (int (1 + j)) (if j = 0 then Undefined else as_Error (err (1 + j - 1))) (0 + j) of
        (r, evs) \<Rightarrow> (r, concat (map (failed_attempt_trace opts err) [1..<1 + j]) @ evs))"
    using assms(2) k by (intro retry_loop_failures [OF pre]) auto
  moreover have "retry_loop fn opts (int (1 + j)) (if j = 0 then Undefined else as_Error (err (1 + j - 1))) (0 + j)
       = (Inr v, [Invoked])"
    using assms(2,4) k by (intro retry_loop_success) auto
  ultimately show ?thesis
    by (simp add: retryWithBackoff_def k)
qed

lemma retryWithBackoff_failure_trace:
  assumes "1 \<le> maxAttempts opts"
    and "\<forall>n. 1 \<le> n \<longrightarrow> fn (n - 1) = Inl (err n)"
  shows "retryWithBackoff fn opts =
           (Inl (as_Error (err (nat (maxAttempts opts)))),
            concat (map (failed_attempt_trace opts err) [1..<nat (maxAttempts opts)]) @ [Invoked])"
proof -
  obtain j where m: "nat (maxAttempts opts) = Suc j" using assms(1) by (cases "nat (maxAttempts opts)") auto
  then have mi: "maxAttempts opts = int (Suc j)" using assms(1) by linarith
  have pre: "\<forall>i<j. fn (0 + i) = Inl (err (1 + i))"
    using assms(2) by auto
  have "retry_loop fn opts (int 1) Undefined 0 =
     (case retry_loop fn opts (int (1 + j)) (if j = 0 then Undefined else as_Error (err (1 + j - 1))) (0 + j) of
        (r, evs) \<Rightarrow> (r, concat (map (failed_attempt_trace opts err) [1..<1 + j]) @ evs))"
    using mi by (intro retry_loop_failures [OF pre]) auto
  moreover have "retry_loop fn opts (int (1 + j)) (if j = 0 then Undefined else as_Error (err (1 + j - 1))) (0 + j)
       = (Inl (as_Error (err (Suc j))), [Invoked])"
    using mi assms(2) [rule_format, of "Suc j"] by (intro retry_loop_last_failure) auto
  ultimately show ?thesis
    by (simp add: retryWithBackoff_def m)
qed

text \<open>
  Claim C2, as amended. For every policy with \<open>maxAttempts \<ge> 1\<close> and every operation that
  fails on every attempt (attempt \<open>n\<close> with the value \<open>err n\<close>), \<^verbatim>\<open>retryWithBackoff\<close>
  invokes the operation exactly \<open>maxAttempts\<close> times and then throws the failure of the
  last attempt: the very same value when that is an \<^verbatim>\<open>Error\<close> instance, and otherwise a
  new \<^verbatim>\<open>Error\<close> whose message is \<^verbatim>\<open>String\<close> of the value.
\<close>

theorem retryWithBackoff_exhausted:
  assumes "1 \<le> maxAttempts opts"
    and "\<forall>n. 1 \<le> n \<longrightarrow> fn (n - 1) = Inl (err n)"
  shows "invocations (snd (retryWithBackoff fn opts)) = nat (maxAttempts opts)
       \<and> fst (retryWithBackoff fn opts) =
           Inl (if instanceof_Error (err (nat (maxAttempts opts)))
                then err (nat (maxAttempts opts))
                else ErrorObj PlainError (String_of (err (nat (maxAttempts opts)))))"
proof -
  have "nat (maxAttempts opts) = Suc (nat (maxAttempts opts) - 1)" using assms(1) by simp
  then have "invocations (concat (map (failed_attempt_trace opts err) [1..<nat (maxAttempts opts)])) =
       nat (maxAttempts opts) - 1"
    using invocations_failed_attempts [of opts err 1 "nat (maxAttempts opts) - 1"] by simp
  then show ?thesis
    using assms(1)
    by (simp add: retryWithBackoff_failure_trace [OF assms] invocations_append as_Error_def)
       (simp add: invocations_def)
qed

theorem retryWithBackoff_exhausted_witness:
  "invocations (snd (retryWithBackoff always_fail (policy 2 10 100 False))) = 2
   \<and> fst (retryWithBackoff always_fail (policy 2 10 100 False)) = Inl (ErrorObj PlainError ''Always fail'')"
  using retryWithBackoff_exhausted [of "policy 2 10 100 False" always_fail "\<lambda>n. ErrorObj PlainError ''Always fail''"]
  by (simp add: policy_def always_fail_def)

text \<open>
  Claim C2 as stated fails: an operation that rejects with the string \<^verbatim>\<open>'boom'\<close> makes
  \<^verbatim>\<open>retryWithBackoff\<close> throw a new \<^verbatim>\<open>Error\<close> with that message, not the string.
\<close>

theorem retryWithBackoff_wraps_non_Error:
  "fst (retryWithBackoff always_boom (policy 1 10 100 False)) = Inl (ErrorObj PlainError ''boom'')
   \<and> fst (retryWithBackoff always_boom (policy 1 10 100 False)) \<noteq> always_boom 0"
  by (simp add: retryWithBackoff_def retry_loop.simps policy_def always_boom_def as_Error_def)

text \<open>
  Claim C3. For a policy with \<open>maxAttempts \<ge> 1\<close> and an operation that fails on attempts
  \<open>1\<close> to \<open>k - 1\<close> and succeeds on attempt \<open>k \<le> maxAttempts\<close>: the result of attempt \<open>k\<close> is
  returned; the operation is invoked exactly \<open>k\<close> times; the delays are, for the attempts
  \<open>n = 2, \<dots>, k\<close> in order, \<open>min (initialDelay * 2 ^ (n - 2)) maxDelay\<close>; the trace ends with
  the successful invocation, so no delay follows it; and the whole trace is, for each failed
  attempt, its invocation, the warning, the observer (when supplied) called with the attempt
  number and the error, then the delay.
\<close>

theorem retryWithBackoff_succeeds_on_attempt_k:
  assumes "1 \<le> k" and "int k \<le> maxAttempts opts"
    and "\<forall>n. 1 \<le> n \<and> n < k \<longrightarrow> fn (n - 1) = Inl (err n)"
    and "fn (k - 1) = Inr v"
  shows "fst (retryWithBackoff fn opts) = Inr v
       \<and> invocations (snd (retryWithBackoff fn opts)) = k
       \<and> delays (snd (retryWithBackoff fn opts)) =
           map (\<lambda>n. min (initialDelay opts * 2 ^ (n - 2)) (maxDelay opts)) [2..<Suc k]
       \<and> last (snd (retryWithBackoff fn opts)) = Invoked
       \<and> snd (retryWithBackoff fn opts) =
           concat (map (failed_attempt_trace opts err) [1..<k]) @ [Invoked]"
proof -
  obtain j where k: "k = Suc j" using assms(1) by (cases k) auto
  have inv: "invocations (concat (map (failed_attempt_trace opts err) [1..<k])) = j"
    using invocations_failed_attempts [of opts err 1 j] k by simp
  have "map (\<lambda>n. min (initialDelay opts * 2 ^ (n - 1)) (maxDelay opts)) [1..<1 + j] =
        map (\<lambda>n. min (initialDelay opts * 2 ^ (n - 2)) (maxDelay opts)) [2..<Suc (Suc j)]"
    by (induction j) simp_all
  then have del: "delays (concat (map (failed_attempt_trace opts err) [1..<k])) =
       map (\<lambda>n. min (initialDelay opts * 2 ^ (n - 2)) (maxDelay opts)) [2..<Suc k]"
    using delays_failed_attempts [of opts err 1 j] k by simp
  show ?thesis
    unfolding retryWithBackoff_success_trace [OF assms]
    using inv del k by (simp add: invocations_append delays_append) (simp add: invocations_def)
qed

theorem retryWithBackoff_succeeds_on_attempt_k_witness:
  "fst (retryWithBackoff third_time_lucky (policy 3 1000 1500 True)) = Inr ''success''
   \<and> invocations (snd (retryWithBackoff third_time_lucky (policy 3 1000 1500 True))) = 3
   \<and> delays (snd (retryWithBackoff third_time_lucky (policy 3 1000 1500 True))) = [1000, 1500]
   \<and> snd (retryWithBackoff third_time_lucky (policy 3 1000 1500 True)) =
       [Invoked, Warned 1 3 1000, Observed 1 (ErrorObj PlainError ''Fail 1''), Slept 1000,
        Invoked, Warned 2 3 1500, Observed 2 (ErrorObj PlainError ''Fail 2''), Slept 1500,
        Invoked]"
proof -
  have fails: "\<forall>n. 1 \<le> n \<and> n < 3 \<longrightarrow> third_time_lucky (n - 1) = Inl (third_time_errors n)"
    by (auto simp: third_time_lucky_def third_time_errors_def)
  have succeeds: "third_time_lucky (3 - 1) = Inr ''success''"
    by (simp add: third_time_lucky_def)
  have "(1::nat) \<le> 3" and "int 3 \<le> maxAttempts (policy 3 1000 1500 True)"
    by (simp_all add: policy_def)
  from retryWithBackoff_succeeds_on_attempt_k [OF this fails succeeds]
  show ?thesis
    by (simp add: policy_def third_time_errors_def failed_attempt_trace_def as_Error_def upt_rec
                  invocations_def)
qed

text \<open>
  Claim C10. For every policy whose \<open>maxAttempts\<close> is less than 1, \<^verbatim>\<open>retryWithBackoff\<close>
  never invokes the operation (nothing at all happens: the trace is empty) and throws
  \<^verbatim>\<open>undefined\<close>, the value of the never assigned \<^verbatim>\<open>lastError\<close>, which is not an
  \<^verbatim>\<open>Error\<close>.
\<close>

theorem retryWithBackoff_no_attempts:
  assumes "maxAttempts opts < 1"
  shows "retryWithBackoff fn opts = (Inl Undefined, [])
       \<and> invocations (snd (retryWithBackoff fn opts)) = 0
       \<and> \<not> instanceof_Error Undefined"
  using assms by (simp add: retryWithBackoff_def retry_loop.simps invocations_def)

theorem retryWithBackoff_no_attempts_witness:
  "retryWithBackoff third_time_lucky (policy 0 1000 1500 True) = (Inl Undefined, [])
   \<and> invocations (snd (retryWithBackoff third_time_lucky (policy 0 1000 1500 True))) = 0"
  using retryWithBackoff_no_attempts [of "policy 0 1000 1500 True" third_time_lucky]
  by (simp add: policy_def invocations_def)

section \<open>Properties of the real recognition adapter\<close>

lemma settle_fields [simp]:
  "transcription (settle outcome r) = transcription r"
  "lang (settle outcome r) = lang r"
  "startTime (settle outcome r) = startTime r"
  by (simp_all add: settle_def split: option.splits)

lemma settle_pending: "settled r = None \<Longrightarrow> settled (settle outcome r) = Some outcome"
  by (simp add: settle_def)

lemma on_sdk_event_fields [simp]:
  "lang (on_sdk_event r e) = lang r"
  "startTime (on_sdk_event r e) = startTime r"
  by (cases e; simp)+

lemma recognised_texts_append: "recognised_texts (xs @ ys) = recognised_texts xs @ recognised_texts ys"
  by (induction xs rule: recognised_texts.induct) simp_all

lemma accumulated_append: "accumulated (xs @ ys) = accumulated xs @ accumulated ys"
  by (simp add: accumulated_def recognised_texts_append)

lemma on_sdk_event_transcription:
  "transcription (on_sdk_event r e) = transcription r @ accumulated [e]"
  by (cases e) (simp_all add: accumulated_def)

lemma accumulated_empty: "accumulated evs = [] \<longleftrightarrow> recognised_texts evs = []"
  by (cases "recognised_texts evs") (simp_all add: accumulated_def)

lemma sdk_run_snoc: "sdk_run r (evs @ [e]) = on_sdk_event (sdk_run r evs) e"
  by (simp add: sdk_run_def)

lemma sdk_run_fields:
  "transcription (sdk_run r evs) = transcription r @ accumulated evs
   \<and> lang (sdk_run r evs) = lang r \<and> startTime (sdk_run r evs) = startTime r"
proof (induction evs rule: rev_induct)
  case Nil
  then show ?case by (simp add: sdk_run_def accumulated_def)
next
  case (snoc e evs)
  then show ?case
    by (simp add: sdk_run_snoc on_sdk_event_transcription accumulated_append)
qed

lemma transcribe_start_fields:
  "transcription (transcribe_start client l thr t0) = []"
  "lang (transcribe_start client l thr t0) = l"
  "startTime (transcribe_start client l thr t0) = t0"
  by (simp_all add: transcribe_start_def Let_def split: option.splits)

text \<open>
  Claim C9, as amended. Take any call of the real adapter's \<^verbatim>\<open>transcribe\<close> and any
  sequence of provider events after which the call is still pending. When the timer of 60
  seconds fires then: if at least one recognition event with reason \<^verbatim>\<open>RecognizedSpeech\<close>
  has arrived, whatever its text, the call resolves with the recognised texts, each followed
  by a space, joined and trimmed (which may be the empty text), the language and the
  elapsed time; if no such event has arrived, the call rejects with the failure
  ``Transcription timeout''.
\<close>

theorem transcribe_timeout:
  assumes "settled (sdk_run (transcribe_start client l thr t0) evs) = None"
  shows "settled (on_sdk_event (sdk_run (transcribe_start client l thr t0) evs) (TimeoutFired now)) =
           (if recognised_texts evs \<noteq> []
            then Some (Inr \<lparr>result_text = trim (concat (map (\<lambda>t. t @ '' '') (recognised_texts evs))),
                            language = l, duration = Some (now - t0), confidence = None\<rparr>)
            else Some (Inl (ErrorObj ExternalServiceError ''Transcription timeout'')))"
proof -
  have "transcription (sdk_run (transcribe_start client l thr t0) evs) = accumulated evs"
    using sdk_run_fields [of "transcribe_start client l thr t0" evs]
    by (simp add: transcribe_start_fields)
  then show ?thesis
    using assms sdk_run_fields [of "transcribe_start client l thr t0" evs] accumulated_empty [of evs]
    by (simp add: transcribe_start_fields settle_pending) (simp add: accumulated_def)
qed

theorem transcribe_timeout_witness:
  "settled (on_sdk_event
       (sdk_run (transcribe_start azure_client en_US None 1000)
          [Recognized True ''hello'', Recognized False ''noise'', Recognized True ''world''])
       (TimeoutFired 61000))
     = Some (Inr \<lparr>result_text = ''hello world'', language = en_US, duration = Some 60000,
                  confidence = None\<rparr>)
   \<and> settled (on_sdk_event (sdk_run (transcribe_start azure_client en_US None 1000) [Recognized False ''noise''])
                 (TimeoutFired 61000))
     = Some (Inl (ErrorObj ExternalServiceError ''Transcription timeout''))"
proof -
  have p1: "settled (sdk_run (transcribe_start azure_client en_US None 1000)
          [Recognized True ''hello'', Recognized False ''noise'', Recognized True ''world'']) = None"
    by (simp add: sdk_run_def transcribe_start_def azure_client_def truthy_string_def)
  have p2: "settled (sdk_run (transcribe_start azure_client en_US None 1000) [Recognized False ''noise'']) = None"
    by (simp add: sdk_run_def transcribe_start_def azure_client_def truthy_string_def)
  have t: "trim ''hello world '' = ''hello world''"
    by code_simp
  from transcribe_timeout [OF p1, of 61000] transcribe_timeout [OF p2, of 61000] t
  show ?thesis by simp
qed

text \<open>
  Claim C9 as stated fails where it makes the call reject whenever no text has
  accumulated: the timer callback tests the buffer before trimming it, and one recognition
  event with an empty text leaves a single space there. The call then resolves, with the
  empty text.
\<close>

theorem transcribe_timeout_blank_recognition:
  "concat (recognised_texts [Recognized True []]) = []
   \<and> settled (sdk_run (transcribe_start azure_client en_US None 1000) [Recognized True []]) = None
   \<and> settled (on_sdk_event (sdk_run (transcribe_start azure_client en_US None 1000) [Recognized True []])
                 (TimeoutFired 61000))
     = Some (Inr \<lparr>result_text = [], language = en_US, duration = Some 60000, confidence = None\<rparr>)"
  by code_simp

section \<open>Properties of the list query\<close>

















section \<open>Properties of the batch pipelines\<close>

lemma TranscriptionModel_create_cases:
  "(\<exists>e. TranscriptionModel_create reply store inp = (Inl e, store))
   \<or> (\<exists>d. TranscriptionModel_create reply store inp = (Inr d, store @ [d])
          \<and> doc_source d = (case in_source inp of None \<Rightarrow> mock | Some s \<Rightarrow> s)
          \<and> doc_transcription d = in_transcription inp)"
  by (simp add: TranscriptionModel_create_def Let_def split: option.splits)

lemma one_record_or_one_error_Inl: "one_record_or_one_error store (Inl e, store)"
  by (simp add: one_record_or_one_error_def)

lemma TranscriptionService_outcome:
  "one_record_or_one_error store (TranscriptionService_transcribeAudio client retry w store audioUrl)"
proof (cases "downloadAudio client retry w audioUrl")
  case (Inl e)
  then show ?thesis
    by (simp add: TranscriptionService_transcribeAudio_def one_record_or_one_error_def)
next
  case (Inr audioResult)
  show ?thesis
    using TranscriptionModel_create_cases
      [of "db w" store "\<lparr>in_audioUrl = audioUrl, in_transcription = generateMockTranscription w audioUrl,
                         in_source = Some mock, in_language = None, in_metadata = None\<rparr>"]
    by (auto simp: TranscriptionService_transcribeAudio_def Inr one_record_or_one_error_def)
qed

lemma AzureSpeechService_outcome:
  "one_record_or_one_error store
     (AzureSpeechService_transcribeAudio client http retry w store audioUrl language_arg)"
proof (cases "downloadAudio http retry w audioUrl")
  case (Inl e)
  then show ?thesis
    by (simp add: AzureSpeechService_transcribeAudio_def one_record_or_one_error_def Let_def)
next
  case dl: (Inr audioResult)
  show ?thesis
  proof (cases "dl_data audioResult = None")
    case True
    then show ?thesis
      by (simp add: AzureSpeechService_transcribeAudio_def dl one_record_or_one_error_def Let_def)
  next
    case data: False
    define language where "language = (case language_arg of None \<Rightarrow> en_US | Some l \<Rightarrow> l)"
    show ?thesis
    proof (cases "fst (retryWithBackoff (client_transcribe client w language)
                   \<lparr>maxAttempts = 3, initialDelay = 1000, maxDelay = 10000, onRetry = True\<rparr>)")
      case (Inl e)
      then show ?thesis
        using data
        by (simp add: AzureSpeechService_transcribeAudio_def dl one_record_or_one_error_def language_def Let_def)
    next
      case (Inr result)
      show ?thesis
        using data Inr TranscriptionModel_create_cases
          [of "db w" store "\<lparr>in_audioUrl = audioUrl, in_transcription = result_text result,
                             in_source = Some (if isConfigured client then azure else mock),
                             in_language = Some language, in_metadata = None\<rparr>"]
        by (auto simp: AzureSpeechService_transcribeAudio_def dl one_record_or_one_error_def language_def Let_def)
    qed
  qed
qed

text \<open>
  Claim C4. For every syntactically valid http/https URL, every store, and whatever the
  network, the provider and the database do, one call of either batch pipeline ends in
  exactly one of two ways: a response and exactly one new document in the store, the one
  the response shows; or an error and the store as it was before the call.
\<close>

theorem batch_pipeline_one_record_or_one_error:
  assumes "isValidUrl (new_URL w) audioUrl"
  shows "one_record_or_one_error store (TranscriptionService_transcribeAudio http retry w store audioUrl)
       \<and> one_record_or_one_error store
           (AzureSpeechService_transcribeAudio client http retry w store audioUrl language_arg)"
  using TranscriptionService_outcome AzureSpeechService_outcome by simp

theorem batch_pipeline_one_record_or_one_error_witness:
  "isValidUrl (new_URL quiet_world) ''https://example.com/a.mp3''
   \<and> one_record_or_one_error []
        (TranscriptionService_transcribeAudio MockHttpClient default_retry quiet_world []
           ''https://example.com/a.mp3'')
   \<and> one_record_or_one_error []
        (AzureSpeechService_transcribeAudio azure_client MockHttpClient default_retry quiet_world []
           ''https://example.com/a.mp3'' (Some fr_FR))
   \<and> length (snd (TranscriptionService_transcribeAudio MockHttpClient default_retry quiet_world []
           ''https://example.com/a.mp3'')) = 1
   \<and> AzureSpeechService_transcribeAudio azure_client MockHttpClient default_retry quiet_world []
           ''https://example.com/a.mp3'' (Some fr_FR)
       = (Inl (ErrorObj ExternalServiceError ''unreachable''), [])"
proof -
  have valid: "isValidUrl (new_URL quiet_world) ''https://example.com/a.mp3''"
    by (simp add: isValidUrl_def quiet_world_def example_parser_def)
  have stored: "length (snd (TranscriptionService_transcribeAudio MockHttpClient default_retry quiet_world []
           ''https://example.com/a.mp3'')) = 1"
    by code_simp
  have failed: "AzureSpeechService_transcribeAudio azure_client MockHttpClient default_retry quiet_world []
           ''https://example.com/a.mp3'' (Some fr_FR)
       = (Inl (ErrorObj ExternalServiceError ''unreachable''), [])"
    by code_simp
  from batch_pipeline_one_record_or_one_error
         [OF valid, of "[]" MockHttpClient default_retry azure_client "Some fr_FR"] valid stored failed
  show ?thesis by simp
qed

text \<open>
  Whatever the client, a call of the Azure pipeline that succeeds shows and stores the
  source \<open>azure\<close>: the label is \<open>mock\<close> only for a client that is not configured, and such
  a client recognises nothing.
\<close>

lemma retry_loop_all_fail:
  "\<forall>i. \<exists>e. fn i = Inl e \<Longrightarrow> \<exists>e. fst (retry_loop fn opts attempt lastError calls) = Inl e"
proof (induction fn opts attempt lastError calls rule: retry_loop.induct)
  case (1 fn opts attempt lastError calls)
  from "1.prems" obtain e where e: "fn calls = Inl e" by blast
  show ?case
  proof (cases "attempt \<le> maxAttempts opts \<and> attempt \<noteq> maxAttempts opts")
    case True
    then have "\<exists>e'. fst (retry_loop fn opts (attempt + 1) (as_Error e) (Suc calls)) = Inl e'"
      using "1.IH" [of e] e "1.prems" by simp
    with True e show ?thesis
      by (subst retry_loop.simps) (auto split: prod.splits)
  next
    case False
    with e show ?thesis
      by (subst retry_loop.simps) auto
  qed
qed

lemma AzureSpeechService_success_is_labelled_azure:
  assumes "AzureSpeechService_transcribeAudio client http retry w store audioUrl language_arg = (Inr r, store')"
  shows "res_source r = azure"
proof (cases "isConfigured client")
  case True
  show ?thesis
    using assms TranscriptionModel_create_cases
    by (auto simp: AzureSpeechService_transcribeAudio_def Let_def True TranscriptionModel_create_def
             split: sum.splits if_splits option.splits)
next
  case False
  then obtain k g where c: "client = RealSpeechClient k g"
    by (cases client) auto
  have "\<forall>i. \<exists>e. client_transcribe client w l i = Inl e" for l
    using False by (simp add: client_transcribe_def c)
  then have "\<exists>e. fst (retryWithBackoff (client_transcribe client w l) opts) = Inl e" for l opts
    unfolding retryWithBackoff_def by (rule retry_loop_all_fail)
  then show ?thesis
    using assms
    by (auto simp: AzureSpeechService_transcribeAudio_def Let_def split: sum.splits if_splits)
       (metis sum.distinct(1))+
qed

text \<open>
  Claim C1 at a concrete input. The process has no Azure credentials, so the factory
  selects the simulated speech client; the request succeeds; the text is the simulated
  recogniser's English sentence; and the stored and returned source is \<open>azure\<close>, not
  \<open>mock\<close>.
\<close>

theorem AzureSpeechService_mock_client_persists_azure:
  "createSpeechClient None None = MockSpeechClient
   \<and> recogniser (createSpeechClient None None) = mock
   \<and> AzureSpeechService_transcribeAudio (createSpeechClient None None) (createHttpClient True)
        default_retry quiet_world [] ''https://example.com/a.mp3'' None
     = (Inr \<lparr>res_id = ''507f1f77bcf86cd799439011'', res_audioUrl = ''https://example.com/a.mp3'',
              res_transcription = mock_en_US, res_source = azure, res_language = Some en_US,
              res_createdAt = 1765189800000\<rparr>,
        [\<lparr>doc_id = ''507f1f77bcf86cd799439011'', doc_audioUrl = ''https://example.com/a.mp3'',
          doc_transcription = mock_en_US, doc_source = azure, doc_language = Some en_US,
          doc_metadata = None, doc_createdAt = 1765189800000\<rparr>])"
  by code_simp

section \<open>Properties of the streaming session\<close>

lemma send_fields [simp]:
  "sessionId (send m s) = sessionId s"
  "ws_startTime (send m s) = ws_startTime s"
  "chunkCount (send m s) = chunkCount s"
  "audioChunks (send m s) = audioChunks s"
  "isComplete (send m s) = isComplete s"
  "emitter (send m s) = emitter s"
  "finalizers (send m s) = finalizers s"
  "socket_open (send m s) = socket_open s"
  "documents (send m s) = documents s"
  "outbox (send m s) = outbox s @ (if socket_open s then [m] else [])"
  by (simp_all add: send_def)

lemma processChunks_fields [simp]:
  "sessionId (processChunks s) = sessionId s"
  "ws_startTime (processChunks s) = ws_startTime s"
  "chunkCount (processChunks s) = chunkCount s"
  "audioChunks (processChunks s) = audioChunks s"
  "isComplete (processChunks s) = isComplete s"
  "finalizers (processChunks s) = finalizers s"
  "socket_open (processChunks s) = socket_open s"
  "documents (processChunks s) = documents s"
  "outbox (processChunks s) =
     outbox s @ (if \<not> isComplete s \<and> audioChunks s \<noteq> [] \<and> socket_open s
                 then [partialMessage (audioChunks s)] else [])"
  by (simp_all add: processChunks_def)

lemma on_message_fields:
  "sessionId (on_message s m) = sessionId s"
  "ws_startTime (on_message s m) = ws_startTime s"
  "socket_open (on_message s m) = socket_open s"
  "documents (on_message s m) = documents s"
  "isComplete s \<Longrightarrow> isComplete (on_message s m)"
  by (auto simp: on_message_def Let_def split: option.splits json.splits)

lemma on_message_outbox:
  "outbox (on_message s m) =
     outbox s @
       (if \<not> socket_open s then []
        else if throws_in_handler m then [errorMessage]
        else if has_chunk_type m \<and> chunkCount s = 0 \<and> \<not> isComplete s
        then [partialMessage (audioChunks s @ [get_prop (the m) ''data''])]
        else [])"
  by (cases m; cases "the m")
     (auto simp: on_message_def Let_def has_chunk_type_def)


lemma on_finalizer_wakes_fields [simp]:
  "sessionId (on_finalizer_wakes s i now) = sessionId s"
  "ws_startTime (on_finalizer_wakes s i now) = ws_startTime s"
  "chunkCount (on_finalizer_wakes s i now) = chunkCount s"
  "audioChunks (on_finalizer_wakes s i now) = audioChunks s"
  "isComplete (on_finalizer_wakes s i now) = isComplete s"
  "emitter (on_finalizer_wakes s i now) = emitter s"
  "socket_open (on_finalizer_wakes s i now) = socket_open s"
  "documents (on_finalizer_wakes s i now) = documents s"
  "outbox (on_finalizer_wakes s i now) = outbox s"
  by (simp_all add: on_finalizer_wakes_def)

lemma on_create_settles_cases:
  "on_create_settles s i reply = s
   \<or> (\<exists>inp. i < length (finalizers s) \<and> finalizers s ! i = AwaitingCreate inp
          \<and> on_create_settles s i reply = send errorMessage (s\<lparr>finalizers := (finalizers s)[i := Finished]\<rparr>))
   \<or> (\<exists>inp d. i < length (finalizers s) \<and> finalizers s ! i = AwaitingCreate inp
          \<and> TranscriptionModel_create reply (documents s) inp = (Inr d, documents s @ [d])
          \<and> on_create_settles s i reply =
              (send (Final (in_transcription inp) (doc_id d))
                 (s\<lparr>finalizers := (finalizers s)[i := Finished], documents := documents s @ [d]\<rparr>))
              \<lparr>socket_open := False\<rparr>)"
proof (cases "i < length (finalizers s)")
  case False
  then show ?thesis by (simp add: on_create_settles_def)
next
  case True
  show ?thesis
  proof (cases "finalizers s ! i")
    case (AwaitingCreate inp)
    from TranscriptionModel_create_cases [of reply "documents s" inp]
    show ?thesis
      using True AwaitingCreate by (auto simp: on_create_settles_def)
  qed (use True in \<open>simp_all add: on_create_settles_def\<close>)
qed

lemma ws_step_sends:
  "\<exists>ms. outbox (ws_step s e) = outbox s @ ms
      \<and> (\<not> socket_open s \<longrightarrow> ms = [] \<and> \<not> socket_open (ws_step s e))
      \<and> (isComplete s \<longrightarrow> isComplete (ws_step s e) \<and> filter is_Partial ms = [])
      \<and> (filter is_Final ms = [] \<or> (length ms = 1 \<and> is_Final (last ms) \<and> \<not> socket_open (ws_step s e)))"
proof (cases e)
  case (Message m)
  then show ?thesis
    by (simp add: on_message_outbox on_message_fields errorMessage_def partialMessage_def)
next
  case EmitterWakes
  then show ?thesis by (simp add: partialMessage_def)
next
  case (FinalizerWakes i now)
  then show ?thesis by simp
next
  case (CreateSettles i reply)
  from on_create_settles_cases [of s i reply] show ?thesis
    unfolding CreateSettles ws_step.simps
    by (elim disjE exE conjE) (simp_all add: errorMessage_def)
next
  case SocketClosed
  then show ?thesis by simp
next
  case SocketError
  then show ?thesis by simp
qed

lemma ws_run_snoc: "ws_run s (evs @ [e]) = ws_step (ws_run s evs) e"
  by (simp add: ws_run_def)

lemma ws_run_append: "ws_run s (evs @ evs') = ws_run (ws_run s evs) evs'"
  by (simp add: ws_run_def)

lemma ws_run_Cons: "ws_run s (e # evs) = ws_run (ws_step s e) evs"
  by (simp add: ws_run_def)

lemma ws_run_Nil: "ws_run s [] = s"
  by (simp add: ws_run_def)

lemma ws_run_sends:
  "\<exists>ms. outbox (ws_run s evs) = outbox s @ ms
      \<and> (\<not> socket_open s \<longrightarrow> ms = [] \<and> \<not> socket_open (ws_run s evs))
      \<and> (isComplete s \<longrightarrow> isComplete (ws_run s evs) \<and> filter is_Partial ms = [])
      \<and> (filter is_Final ms = [] \<or>
           (length (filter is_Final ms) = 1 \<and> is_Final (last ms) \<and> \<not> socket_open (ws_run s evs)))"
proof (induction evs rule: rev_induct)
  case Nil
  then show ?case by (simp add: ws_run_Nil)
next
  case (snoc e evs)
  then obtain ms where ms: "outbox (ws_run s evs) = outbox s @ ms"
    and closed: "\<not> socket_open s \<longrightarrow> ms = [] \<and> \<not> socket_open (ws_run s evs)"
    and complete: "isComplete s \<longrightarrow> isComplete (ws_run s evs) \<and> filter is_Partial ms = []"
    and finals: "filter is_Final ms = [] \<or>
           (length (filter is_Final ms) = 1 \<and> is_Final (last ms) \<and> \<not> socket_open (ws_run s evs))"
    by blast
  from ws_step_sends [of "ws_run s evs" e] obtain ns
    where ns: "outbox (ws_step (ws_run s evs) e) = outbox (ws_run s evs) @ ns"
      and closed': "\<not> socket_open (ws_run s evs) \<longrightarrow> ns = [] \<and> \<not> socket_open (ws_step (ws_run s evs) e)"
      and complete': "isComplete (ws_run s evs) \<longrightarrow>
                        isComplete (ws_step (ws_run s evs) e) \<and> filter is_Partial ns = []"
      and finals': "filter is_Final ns = [] \<or>
           (length ns = 1 \<and> is_Final (last ns) \<and> \<not> socket_open (ws_step (ws_run s evs) e))"
    by blast
  have out: "outbox (ws_run s (evs @ [e])) = outbox s @ (ms @ ns)"
    by (simp add: ws_run_snoc ns ms)
  have c1: "\<not> socket_open s \<longrightarrow> ms @ ns = [] \<and> \<not> socket_open (ws_run s (evs @ [e]))"
    using closed closed' by (simp add: ws_run_snoc)
  have c2: "isComplete s \<longrightarrow> isComplete (ws_run s (evs @ [e])) \<and> filter is_Partial (ms @ ns) = []"
    using complete complete' by (simp add: ws_run_snoc)
  have c3: "filter is_Final (ms @ ns) = [] \<or>
           (length (filter is_Final (ms @ ns)) = 1 \<and> is_Final (last (ms @ ns))
            \<and> \<not> socket_open (ws_run s (evs @ [e])))"
  proof (cases "filter is_Final ms = []")
    case True
    from finals' show ?thesis
    proof
      assume "filter is_Final ns = []"
      with True show ?thesis by simp
    next
      assume a: "length ns = 1 \<and> is_Final (last ns) \<and> \<not> socket_open (ws_step (ws_run s evs) e)"
      then obtain n where "ns = [n]" by (cases ns) auto
      with a True show ?thesis by (simp add: ws_run_snoc)
    qed
  next
    case False
    with finals have f: "length (filter is_Final ms) = 1" "is_Final (last ms)" "\<not> socket_open (ws_run s evs)"
      by auto
    with closed' have "ns = []" "\<not> socket_open (ws_step (ws_run s evs) e)" by auto
    with f show ?thesis by (simp add: ws_run_snoc)
  qed
  from out c1 c2 c3 show ?case by blast
qed


lemma last_chunk_completes:
  assumes "last_chunk m"
  shows "isComplete (on_message s m)"
    and "outbox (on_message s m) =
           outbox s @ (if chunkCount s = 0 \<and> \<not> isComplete s \<and> socket_open s
                       then [partialMessage (audioChunks s @ [chunk_data m])] else [])"
proof -
  from assms obtain data where m: "m = Some data"
    and t: "get_prop data ''type'' = Some (JStr ''chunk'')"
    and l: "js_truthy (get_prop data ''isLast'')"
    by (auto simp: last_chunk_def split: option.splits)
  from t have nn: "data \<noteq> JNull" by auto
  show "isComplete (on_message s m)"
    using t l nn by (cases data) (simp_all add: on_message_def Let_def m)
  have "\<not> throws_in_handler m" "has_chunk_type m"
    using t nn by (cases data; simp add: m has_chunk_type_def)+
  then show "outbox (on_message s m) =
           outbox s @ (if chunkCount s = 0 \<and> \<not> isComplete s \<and> socket_open s
                       then [partialMessage (audioChunks s @ [chunk_data m])] else [])"
    by (simp add: on_message_outbox chunk_data_def m)
qed

text \<open>
  Claim C5, as amended. On every connection, whatever happens on it: the welcome message is
  the first message sent; at most one final message is sent, and once it is sent it is the
  last message and nothing is sent after it; handling a chunk with a truthy \<^verbatim>\<open>isLast\<close>
  marks the session complete, and so do the \<^verbatim>\<open>close\<close> and \<^verbatim>\<open>error\<close> events; once the
  session is marked complete no partial message is sent any more; and from the receipt of
  a chunk with a truthy \<^verbatim>\<open>isLast\<close> on, no partial message is sent, with one exception:
  when that chunk is the first chunk of a session that is not yet complete, the one partial
  message of the background loop's first iteration is sent while the chunk is handled.
  Here \<open>evs\<close> is any sequence of events from the opening of the connection, \<open>evs'\<close> any
  continuation and \<open>m\<close> any inbound message.
\<close>

theorem streaming_outbound_order:
  "outbox (ws_run (transcriptionWebSocket sid t0 docs) evs) \<noteq> []
   \<and> hd (outbox (ws_run (transcriptionWebSocket sid t0 docs) evs)) = welcomeMessage
   \<and> length (filter is_Final (outbox (ws_run (transcriptionWebSocket sid t0 docs) evs))) \<le> 1
   \<and> (filter is_Final (outbox (ws_run (transcriptionWebSocket sid t0 docs) evs)) \<noteq> [] \<longrightarrow>
        is_Final (last (outbox (ws_run (transcriptionWebSocket sid t0 docs) evs)))
        \<and> sent_between (ws_run (transcriptionWebSocket sid t0 docs) evs)
             (ws_run (ws_run (transcriptionWebSocket sid t0 docs) evs) evs') = [])
   \<and> outbox (ws_run (ws_run (transcriptionWebSocket sid t0 docs) evs) evs') =
        outbox (ws_run (transcriptionWebSocket sid t0 docs) evs)
        @ sent_between (ws_run (transcriptionWebSocket sid t0 docs) evs)
            (ws_run (ws_run (transcriptionWebSocket sid t0 docs) evs) evs')
   \<and> (isComplete (ws_run (transcriptionWebSocket sid t0 docs) evs) \<longrightarrow>
        filter is_Partial
          (sent_between (ws_run (transcriptionWebSocket sid t0 docs) evs)
             (ws_run (ws_run (transcriptionWebSocket sid t0 docs) evs) evs')) = [])
   \<and> (last_chunk m \<longrightarrow>
        isComplete (ws_step (ws_run (transcriptionWebSocket sid t0 docs) evs) (Message m))
        \<and> filter is_Partial
            (sent_between (ws_run (transcriptionWebSocket sid t0 docs) evs)
               (ws_run (ws_step (ws_run (transcriptionWebSocket sid t0 docs) evs) (Message m)) evs')) =
            (if chunkCount (ws_run (transcriptionWebSocket sid t0 docs) evs) = 0
                \<and> \<not> isComplete (ws_run (transcriptionWebSocket sid t0 docs) evs)
                \<and> socket_open (ws_run (transcriptionWebSocket sid t0 docs) evs)
             then [partialMessage (audioChunks (ws_run (transcriptionWebSocket sid t0 docs) evs) @ [chunk_data m])]
             else []))
   \<and> isComplete (ws_step (ws_run (transcriptionWebSocket sid t0 docs) evs) SocketClosed)
   \<and> isComplete (ws_step (ws_run (transcriptionWebSocket sid t0 docs) evs) SocketError)"
proof -
  let ?s0 = "transcriptionWebSocket sid t0 docs"
  let ?s1 = "ws_run ?s0 evs"
  let ?s2 = "ws_run ?s1 evs'"
  have o0: "outbox ?s0 = [welcomeMessage]"
    by (simp add: transcriptionWebSocket_def)
  from ws_run_sends [of ?s0 evs] obtain ms
    where ms: "outbox ?s1 = [welcomeMessage] @ ms"
      and finals: "filter is_Final ms = [] \<or>
           (length (filter is_Final ms) = 1 \<and> is_Final (last ms) \<and> \<not> socket_open ?s1)"
    unfolding o0 by blast
  from ws_run_sends [of ?s1 evs'] obtain ns
    where ns: "outbox ?s2 = outbox ?s1 @ ns"
      and closed: "\<not> socket_open ?s1 \<longrightarrow> ns = [] \<and> \<not> socket_open ?s2"
      and complete: "isComplete ?s1 \<longrightarrow> isComplete ?s2 \<and> filter is_Partial ns = []"
    by blast
  have sent: "sent_between ?s1 ?s2 = ns"
    by (simp add: sent_between_def ns)
  have w: "filter is_Final (outbox ?s1) = filter is_Final ms"
    by (simp add: ms welcomeMessage_def)
  have c1: "outbox ?s1 \<noteq> []" and c2: "hd (outbox ?s1) = welcomeMessage"
    by (simp_all add: ms)
  have c3: "length (filter is_Final (outbox ?s1)) \<le> 1"
    using finals by (auto simp: w)
  have c4: "filter is_Final (outbox ?s1) \<noteq> [] \<longrightarrow>
              is_Final (last (outbox ?s1)) \<and> sent_between ?s1 ?s2 = []"
  proof
    assume "filter is_Final (outbox ?s1) \<noteq> []"
    then have ne: "filter is_Final ms \<noteq> []" by (simp add: w)
    with finals have f: "is_Final (last ms)" "\<not> socket_open ?s1" by auto
    from ne have "ms \<noteq> []" by auto
    then have "last (outbox ?s1) = last ms" by (simp add: ms)
    with f closed show "is_Final (last (outbox ?s1)) \<and> sent_between ?s1 ?s2 = []"
      by (simp add: sent)
  qed
  have c5: "outbox ?s2 = outbox ?s1 @ sent_between ?s1 ?s2"
    by (simp add: sent ns)
  have c6: "isComplete ?s1 \<longrightarrow> filter is_Partial (sent_between ?s1 ?s2) = []"
    using complete by (simp add: sent)
  have c7: "last_chunk m \<longrightarrow>
        isComplete (ws_step ?s1 (Message m))
        \<and> filter is_Partial (sent_between ?s1 (ws_run (ws_step ?s1 (Message m)) evs')) =
            (if chunkCount ?s1 = 0 \<and> \<not> isComplete ?s1 \<and> socket_open ?s1
             then [partialMessage (audioChunks ?s1 @ [chunk_data m])] else [])"
  proof
    assume l: "last_chunk m"
    let ?s' = "ws_step ?s1 (Message m)"
    have marked: "isComplete ?s'"
      using last_chunk_completes(1) [OF l] by simp
    have first: "outbox ?s' = outbox ?s1 @
            (if chunkCount ?s1 = 0 \<and> \<not> isComplete ?s1 \<and> socket_open ?s1
             then [partialMessage (audioChunks ?s1 @ [chunk_data m])] else [])"
      using last_chunk_completes(2) [OF l] by simp
    from ws_run_sends [of ?s' evs'] marked obtain ks
      where ks: "outbox (ws_run ?s' evs') = outbox ?s' @ ks" and quiet: "filter is_Partial ks = []"
      by blast
    have "sent_between ?s1 (ws_run ?s' evs') =
            (if chunkCount ?s1 = 0 \<and> \<not> isComplete ?s1 \<and> socket_open ?s1
             then [partialMessage (audioChunks ?s1 @ [chunk_data m])] else []) @ ks"
      by (simp add: sent_between_def ks first del: ws_step.simps)
    with quiet marked show "isComplete ?s' \<and>
          filter is_Partial (sent_between ?s1 (ws_run ?s' evs')) =
            (if chunkCount ?s1 = 0 \<and> \<not> isComplete ?s1 \<and> socket_open ?s1
             then [partialMessage (audioChunks ?s1 @ [chunk_data m])] else [])"
      by (simp add: partialMessage_def)
  qed
  have c8: "isComplete (ws_step ?s1 SocketClosed)" and c9: "isComplete (ws_step ?s1 SocketError)"
    by simp_all
  from c1 c2 c3 c4 c5 c6 c7 c8 c9 show ?thesis by (intro conjI)
qed

theorem streaming_outbound_order_witness:
  "isComplete (ws_run fresh_session
       [Message (chunk_message ''a'' False), EmitterWakes, Message (chunk_message ''b'' True)])
   \<and> filter is_Partial
       (sent_between
          (ws_run fresh_session
             [Message (chunk_message ''a'' False), EmitterWakes, Message (chunk_message ''b'' True)])
          (ws_run (ws_run fresh_session
             [Message (chunk_message ''a'' False), EmitterWakes, Message (chunk_message ''b'' True)])
             [EmitterWakes, FinalizerWakes 0 1500, CreateSettles 0 good_reply])) = []
   \<and> filter is_Final (outbox (ws_run fresh_session (two_chunk_schedule ''a'' 1 ''b'' 1 1500 0
         @ [CreateSettles 0 good_reply]))) \<noteq> []
   \<and> sent_between
        (ws_run fresh_session (two_chunk_schedule ''a'' 1 ''b'' 1 1500 0 @ [CreateSettles 0 good_reply]))
        (ws_run (ws_run fresh_session (two_chunk_schedule ''a'' 1 ''b'' 1 1500 0 @ [CreateSettles 0 good_reply]))
           [Message (chunk_message ''c'' False), EmitterWakes, Message None]) = []
   \<and> last_chunk (chunk_message ''b'' True)
   \<and> isComplete (ws_step (ws_run fresh_session [Message (chunk_message ''a'' False), EmitterWakes])
                   (Message (chunk_message ''b'' True)))
   \<and> filter is_Partial
        (sent_between (ws_run fresh_session [Message (chunk_message ''a'' False), EmitterWakes])
           (ws_run (ws_step (ws_run fresh_session [Message (chunk_message ''a'' False), EmitterWakes])
                      (Message (chunk_message ''b'' True)))
              [EmitterWakes, FinalizerWakes 0 1500, EmitterWakes])) = []
   \<and> filter is_Partial
        (sent_between (ws_run fresh_session [])
           (ws_run (ws_step (ws_run fresh_session []) (Message (chunk_message ''b'' True)))
              [EmitterWakes, FinalizerWakes 0 1500, EmitterWakes])) = [Partial ''Hello this'' 55]"
proof -
  have complete: "isComplete (ws_run fresh_session
       [Message (chunk_message ''a'' False), EmitterWakes, Message (chunk_message ''b'' True)])"
    by code_simp
  have final: "filter is_Final (outbox (ws_run fresh_session (two_chunk_schedule ''a'' 1 ''b'' 1 1500 0
         @ [CreateSettles 0 good_reply]))) \<noteq> []"
    by code_simp
  have lastc: "last_chunk (chunk_message ''b'' True)"
    by code_simp
  have second: "\<not> (chunkCount (ws_run (transcriptionWebSocket ''s1'' 0 [])
                      [Message (chunk_message ''a'' False), EmitterWakes]) = 0
                \<and> \<not> isComplete (ws_run (transcriptionWebSocket ''s1'' 0 [])
                      [Message (chunk_message ''a'' False), EmitterWakes])
                \<and> socket_open (ws_run (transcriptionWebSocket ''s1'' 0 [])
                      [Message (chunk_message ''a'' False), EmitterWakes]))"
    by code_simp
  have sole: "chunkCount (ws_run (transcriptionWebSocket ''s1'' 0 []) []) = 0
                \<and> \<not> isComplete (ws_run (transcriptionWebSocket ''s1'' 0 []) [])
                \<and> socket_open (ws_run (transcriptionWebSocket ''s1'' 0 []) [])"
    by code_simp
  have pm: "partialMessage (audioChunks (ws_run (transcriptionWebSocket ''s1'' 0 []) [])
              @ [chunk_data (chunk_message ''b'' True)]) = Partial ''Hello this'' 55"
    by code_simp
  note a = streaming_outbound_order
         [of "''s1''" 0 "[]"
             "[Message (chunk_message ''a'' False), EmitterWakes, Message (chunk_message ''b'' True)]"
             "[EmitterWakes, FinalizerWakes 0 1500, CreateSettles 0 good_reply]"]
  note b = streaming_outbound_order
         [of "''s1''" 0 "[]" "two_chunk_schedule ''a'' 1 ''b'' 1 1500 0 @ [CreateSettles 0 good_reply]"
             "[Message (chunk_message ''c'' False), EmitterWakes, Message None]"]
  note c = streaming_outbound_order
         [of "''s1''" 0 "[]" "[Message (chunk_message ''a'' False), EmitterWakes]"
             "[EmitterWakes, FinalizerWakes 0 1500, EmitterWakes]" "chunk_message ''b'' True"]
  note d = streaming_outbound_order
         [of "''s1''" 0 "[]" "[]"
             "[EmitterWakes, FinalizerWakes 0 1500, EmitterWakes]" "chunk_message ''b'' True"]
  from a complete have w1: "filter is_Partial
       (sent_between
          (ws_run fresh_session
             [Message (chunk_message ''a'' False), EmitterWakes, Message (chunk_message ''b'' True)])
          (ws_run (ws_run fresh_session
             [Message (chunk_message ''a'' False), EmitterWakes, Message (chunk_message ''b'' True)])
             [EmitterWakes, FinalizerWakes 0 1500, CreateSettles 0 good_reply])) = []"
    unfolding fresh_session_def by blast
  from b final have w2: "sent_between
        (ws_run fresh_session (two_chunk_schedule ''a'' 1 ''b'' 1 1500 0 @ [CreateSettles 0 good_reply]))
        (ws_run (ws_run fresh_session (two_chunk_schedule ''a'' 1 ''b'' 1 1500 0 @ [CreateSettles 0 good_reply]))
           [Message (chunk_message ''c'' False), EmitterWakes, Message None]) = []"
    unfolding fresh_session_def by blast
  from c lastc have w3: "isComplete (ws_step (ws_run fresh_session [Message (chunk_message ''a'' False), EmitterWakes])
                   (Message (chunk_message ''b'' True)))
   \<and> filter is_Partial
        (sent_between (ws_run fresh_session [Message (chunk_message ''a'' False), EmitterWakes])
           (ws_run (ws_step (ws_run fresh_session [Message (chunk_message ''a'' False), EmitterWakes])
                      (Message (chunk_message ''b'' True)))
              [EmitterWakes, FinalizerWakes 0 1500, EmitterWakes])) = []"
    unfolding fresh_session_def using second by (simp only: if_False simp_thms) 
  from d lastc have w4: "filter is_Partial
        (sent_between (ws_run fresh_session [])
           (ws_run (ws_step (ws_run fresh_session []) (Message (chunk_message ''b'' True)))
              [EmitterWakes, FinalizerWakes 0 1500, EmitterWakes])) = [Partial ''Hello this'' 55]"
    unfolding fresh_session_def using sole pm by (simp only: if_True simp_thms)
  from complete w1 final w2 lastc w3 w4 show ?thesis by (intro conjI) simp_all
qed

text \<open>
  Claim C5 as stated fails where it forbids every partial message after the receipt of the
  chunk with \<^verbatim>\<open>isLast = true\<close>: when that chunk is the first of the session, the handler
  starts the background loop before it looks at \<^verbatim>\<open>isLast\<close>, and the loop's first
  iteration sends a partial message.
\<close>

theorem partial_after_receipt_of_last_chunk:
  "well_formed_chunk (chunk_message ''a'' True)
   \<and> js_truthy (Some (JBool True))
   \<and> outbox fresh_session = [welcomeMessage]
   \<and> sent_between fresh_session (ws_step fresh_session (Message (chunk_message ''a'' True)))
       = [Partial ''Hello this'' 55]
   \<and> is_Partial (Partial ''Hello this'' 55)"
  by code_simp


text \<open>
  Claim C7, as amended. On an open connection, an inbound message that cannot be parsed
  (or parses to \<^verbatim>\<open>null\<close>) leaves the session state as it is, sends exactly one error
  message \<^verbatim>\<open>{type: 'error', message, code}\<close> and leaves the connection open; an inbound
  message that parses to a value whose \<^verbatim>\<open>type\<close> is not \<^verbatim>\<open>'chunk'\<close> leaves the session
  state as it is, sends nothing and leaves the connection open.
\<close>

theorem message_without_chunk_type:
  assumes "socket_open s" and "\<not> has_chunk_type message"
  shows "ws_step s (Message message) =
           (if throws_in_handler message then s\<lparr>outbox := outbox s @ [errorMessage]\<rparr> else s)
       \<and> chunkCount (ws_step s (Message message)) = chunkCount s
       \<and> audioChunks (ws_step s (Message message)) = audioChunks s
       \<and> isComplete (ws_step s (Message message)) = isComplete s
       \<and> emitter (ws_step s (Message message)) = emitter s
       \<and> finalizers (ws_step s (Message message)) = finalizers s
       \<and> documents (ws_step s (Message message)) = documents s
       \<and> socket_open (ws_step s (Message message))
       \<and> sent_between s (ws_step s (Message message)) =
           (if throws_in_handler message then [errorMessage] else [])"
proof -
  have "on_message s message =
          (if throws_in_handler message then s\<lparr>outbox := outbox s @ [errorMessage]\<rparr> else s)"
    using assms
    by (cases message; cases "the message")
       (simp_all add: on_message_def has_chunk_type_def send_def)
  then show ?thesis
    using assms(1) by (simp add: sent_between_def)
qed

theorem message_without_chunk_type_witness:
  "ws_step fresh_session (Message None) = fresh_session\<lparr>outbox := [welcomeMessage, errorMessage]\<rparr>
   \<and> sent_between fresh_session (ws_step fresh_session (Message None))
       = [ErrorMsg ''Failed to process audio chunk'' ''PROCESSING_ERROR'']
   \<and> socket_open (ws_step fresh_session (Message None))
   \<and> ws_step fresh_session (Message ping_message) = fresh_session"
proof -
  have o: "socket_open fresh_session" "outbox fresh_session = [welcomeMessage]"
    by (simp_all add: fresh_session_def transcriptionWebSocket_def)
  have n1: "\<not> has_chunk_type None" and n2: "\<not> has_chunk_type ping_message"
    by (simp_all add: has_chunk_type_def ping_message_def)
  from message_without_chunk_type [OF o(1) n1] message_without_chunk_type [OF o(1) n2]
  show ?thesis
    by (simp add: o ping_message_def errorMessage_def sent_between_def)
qed

text \<open>
  Claim C7 as stated fails on two kinds of message that are not well-formed chunk
  messages. \<^verbatim>\<open>{"type":"ping"}\<close> is answered with no error message at all (it is only
  logged). \<^verbatim>\<open>{"type":"chunk"}\<close>, without \<^verbatim>\<open>data\<close> and \<^verbatim>\<open>isLast\<close>, is taken as a chunk:
  it is counted and appended, and as first chunk it starts the background loop.
\<close>

theorem not_well_formed_without_error_message:
  "\<not> well_formed_chunk ping_message
   \<and> sent_between fresh_session (ws_step fresh_session (Message ping_message)) = []
   \<and> \<not> well_formed_chunk bare_chunk_message
   \<and> chunkCount fresh_session = 0
   \<and> chunkCount (ws_step fresh_session (Message bare_chunk_message)) = 1
   \<and> audioChunks (ws_step fresh_session (Message bare_chunk_message)) = [None]
   \<and> sent_between fresh_session (ws_step fresh_session (Message bare_chunk_message))
       = [Partial ''Hello this'' 55]"
  by code_simp


lemma emitter_wakes_active:
  assumes "emitter s = Sleeping" and "\<not> isComplete s" and "audioChunks s \<noteq> []" and "socket_open s"
  shows "ws_run s (replicate a EmitterWakes) =
           s\<lparr>outbox := outbox s @ replicate a (partialMessage (audioChunks s))\<rparr>"
  using assms
proof (induction a arbitrary: s)
  case 0
  then show ?case by (simp add: ws_run_Nil)
next
  case (Suc a)
  let ?s' = "s\<lparr>outbox := outbox s @ [partialMessage (audioChunks s)]\<rparr>"
  have step: "ws_step s EmitterWakes = ?s'"
    using Suc.prems by (simp add: processChunks_def send_def)
  have ih: "ws_run ?s' (replicate a EmitterWakes) =
          ?s'\<lparr>outbox := outbox ?s' @ replicate a (partialMessage (audioChunks ?s'))\<rparr>"
    using Suc.prems by (intro Suc.IH) simp_all
  have "ws_run s (replicate (Suc a) EmitterWakes) = ws_run (ws_step s EmitterWakes) (replicate a EmitterWakes)"
    by (simp only: replicate_Suc ws_run_Cons)
  also have "\<dots> = ?s'\<lparr>outbox := outbox ?s' @ replicate a (partialMessage (audioChunks ?s'))\<rparr>"
    by (simp only: step ih)
  finally show ?case
    by (simp add: replicate_app_Cons_same)
qed

lemma emitter_wakes_complete:
  assumes "isComplete s"
  shows "\<exists>em. ws_run s (replicate b EmitterWakes) = s\<lparr>emitter := em\<rparr>"
  using assms
proof (induction b arbitrary: s)
  case 0
  have "s = s\<lparr>emitter := emitter s\<rparr>" by simp
  then show ?case by (metis ws_run_Nil replicate_0)
next
  case (Suc b)
  have "\<exists>x. ws_step s EmitterWakes = s\<lparr>emitter := x\<rparr>"
  proof (cases "emitter s = Sleeping")
    case True
    with Suc.prems have "ws_step s EmitterWakes = s\<lparr>emitter := Stopped\<rparr>"
      by (simp add: processChunks_def)
    then show ?thesis by blast
  next
    case False
    then have "ws_step s EmitterWakes = s\<lparr>emitter := emitter s\<rparr>" by simp
    then show ?thesis by blast
  qed
  then obtain x where x: "ws_step s EmitterWakes = s\<lparr>emitter := x\<rparr>" by blast
  have "isComplete (s\<lparr>emitter := x\<rparr>)" using Suc.prems by simp
  from Suc.IH [OF this] obtain em
    where "ws_run (s\<lparr>emitter := x\<rparr>) (replicate b EmitterWakes) = s\<lparr>emitter := x\<rparr>\<lparr>emitter := em\<rparr>"
    by blast
  moreover have "ws_run s (replicate (Suc b) EmitterWakes) =
      ws_run (ws_step s EmitterWakes) (replicate b EmitterWakes)"
    by (simp only: replicate_Suc ws_run_Cons)
  ultimately have "ws_run s (replicate (Suc b) EmitterWakes) = s\<lparr>emitter := em\<rparr>"
    by (simp add: x del: ws_step.simps)
  then show ?case by blast
qed

lemma documents_without_create_step:
  "\<not> is_CreateSettles e \<Longrightarrow> documents (ws_step s e) = documents s"
  by (cases e) (simp_all add: on_message_fields)

lemma documents_without_create:
  "list_all (\<lambda>e. \<not> is_CreateSettles e) evs \<Longrightarrow> documents (ws_run s evs) = documents s"
  by (induction evs rule: rev_induct) (simp_all add: ws_run_Nil ws_run_snoc documents_without_create_step)

lemma finished_step:
  assumes "finalizers s = [Finished]" and "\<not> socket_open s" and "\<not> is_Message e"
  shows "finalizers (ws_step s e) = [Finished] \<and> \<not> socket_open (ws_step s e)
       \<and> documents (ws_step s e) = documents s \<and> outbox (ws_step s e) = outbox s"
proof (cases e)
  case (FinalizerWakes i now)
  with assms show ?thesis by (cases i) (simp_all add: on_finalizer_wakes_def)
next
  case (CreateSettles i reply)
  with assms show ?thesis by (cases i) (simp_all add: on_create_settles_def)
qed (use assms in \<open>simp_all add: processChunks_def send_def\<close>)

lemma finished_run:
  assumes "finalizers s = [Finished]" and "\<not> socket_open s" and "list_all (\<lambda>e. \<not> is_Message e) evs"
  shows "finalizers (ws_run s evs) = [Finished] \<and> \<not> socket_open (ws_run s evs)
       \<and> documents (ws_run s evs) = documents s \<and> outbox (ws_run s evs) = outbox s"
  using assms(3)
proof (induction evs rule: rev_induct)
  case Nil
  with assms show ?case by (simp add: ws_run_Nil)
next
  case (snoc e evs)
  then have ih: "finalizers (ws_run s evs) = [Finished]" "\<not> socket_open (ws_run s evs)"
      "documents (ws_run s evs) = documents s" "outbox (ws_run s evs) = outbox s"
    and e: "\<not> is_Message e"
    by simp_all
  from finished_step [OF ih(1,2) e] ih(3,4) show ?case
    by (simp add: ws_run_snoc)
qed


lemma schedule_without_create:
  "list_all (\<lambda>e. \<not> is_CreateSettles e) (take n (two_chunk_schedule d1 a d2 b now c))"
proof -
  have "\<forall>e \<in> set (two_chunk_schedule d1 a d2 b now c). \<not> is_CreateSettles e"
    by (auto simp: two_chunk_schedule_def)
  then show ?thesis
    by (auto simp: list_all_iff dest: in_set_takeD)
qed

lemma two_chunk_schedule_state:
  "\<exists>em. ws_run (transcriptionWebSocket sid t0 docs) (two_chunk_schedule d1 a d2 b now c) =
     \<lparr>sessionId = sid, ws_startTime = t0, chunkCount = 2,
      audioChunks = [Some (JStr d1), Some (JStr d2)], isComplete = True, emitter = em,
      finalizers = [AwaitingCreate
         \<lparr>in_audioUrl = ''ws://streaming-session/'' @ sid,
          in_transcription = generateFinalTranscription sid [Some (JStr d1), Some (JStr d2)],
          in_source = Some mock, in_language = None,
          in_metadata = Some \<lparr>meta_sessionId = sid, meta_duration = now - t0, meta_chunkCount = 2\<rparr>\<rparr>],
      socket_open = True,
      outbox = welcomeMessage # replicate (Suc a) (Partial ''Hello this'' 55),
      documents = docs\<rparr>"
proof -
  define pm where "pm = Partial ''Hello this'' 55"
  define s0 where "s0 = transcriptionWebSocket sid t0 docs"
  define s1 where "s1 = \<lparr>sessionId = sid, ws_startTime = t0, chunkCount = 1,
      audioChunks = [Some (JStr d1)], isComplete = False, emitter = Sleeping,
      finalizers = [], socket_open = True, outbox = [welcomeMessage, pm], documents = docs\<rparr>"
  define s2 where "s2 = \<lparr>sessionId = sid, ws_startTime = t0, chunkCount = 2,
      audioChunks = [Some (JStr d1), Some (JStr d2)], isComplete = True, emitter = Sleeping,
      finalizers = [AwaitingSleep], socket_open = True,
      outbox = welcomeMessage # replicate (Suc a) pm, documents = docs\<rparr>"
  define inp where "inp = \<lparr>in_audioUrl = ''ws://streaming-session/'' @ sid,
          in_transcription = generateFinalTranscription sid [Some (JStr d1), Some (JStr d2)],
          in_source = Some mock, in_language = None,
          in_metadata = Some \<lparr>meta_sessionId = sid, meta_duration = now - t0, meta_chunkCount = 2\<rparr>\<rparr>"
  have pm: "partialMessage [Some (JStr d1)] = pm"
    by (simp add: partialMessage_def generatePartialTranscription_def words_def pm_def)
  have e1: "ws_step s0 (Message (chunk_message d1 False)) = s1"
    by (simp add: s0_def s1_def transcriptionWebSocket_def on_message_def chunk_message_def Let_def
                  processChunks_def send_def pm)
  have "ws_run s1 (replicate a EmitterWakes) =
          s1\<lparr>outbox := outbox s1 @ replicate a (partialMessage (audioChunks s1))\<rparr>"
    by (rule emitter_wakes_active) (simp_all add: s1_def)
  then have e2: "ws_run s1 (replicate a EmitterWakes) = s1\<lparr>outbox := welcomeMessage # replicate (Suc a) pm\<rparr>"
    by (simp add: s1_def pm)
  have e3: "ws_step (s1\<lparr>outbox := welcomeMessage # replicate (Suc a) pm\<rparr>)
              (Message (chunk_message d2 True)) = s2"
    by (simp add: s1_def s2_def on_message_def chunk_message_def Let_def)
  have c2: "isComplete s2" by (simp add: s2_def)
  obtain em1 where e4: "ws_run s2 (replicate b EmitterWakes) = s2\<lparr>emitter := em1\<rparr>"
    using emitter_wakes_complete [OF c2, of b] by blast
  define s3 where "s3 = s2\<lparr>emitter := em1, finalizers := [AwaitingCreate inp]\<rparr>"
  have e5: "ws_step (s2\<lparr>emitter := em1\<rparr>) (FinalizerWakes 0 now) = s3"
    by (simp add: s2_def s3_def inp_def on_finalizer_wakes_def)
  have c3: "isComplete s3" by (simp add: s3_def s2_def)
  obtain em2 where e6: "ws_run s3 (replicate c EmitterWakes) = s3\<lparr>emitter := em2\<rparr>"
    using emitter_wakes_complete [OF c3, of c] by blast
  have "ws_run s0 (two_chunk_schedule d1 a d2 b now c) = s3\<lparr>emitter := em2\<rparr>"
    unfolding two_chunk_schedule_def
    by (simp only: ws_run_append ws_run_Cons ws_run_Nil e1 e2 e3 e4 e5 e6)
  then have final: "ws_run (transcriptionWebSocket sid t0 docs) (two_chunk_schedule d1 a d2 b now c) =
     \<lparr>sessionId = sid, ws_startTime = t0, chunkCount = 2,
      audioChunks = [Some (JStr d1), Some (JStr d2)], isComplete = True, emitter = em2,
      finalizers = [AwaitingCreate inp],
      socket_open = True,
      outbox = welcomeMessage # replicate (Suc a) (Partial ''Hello this'' 55),
      documents = docs\<rparr>"
    by (simp add: s0_def s3_def s2_def pm_def)
  show ?thesis
    by (rule exI [where x = em2]) (simp only: final [unfolded inp_def])
qed

text \<open>
  Claim C6, as amended. A session receives one chunk with \<^verbatim>\<open>isLast = false\<close> and then one
  with \<^verbatim>\<open>isLast = true\<close>, the connection stays open and the database accepts the insert
  (\<open>db_fault reply = None\<close>); the background loop may wake any number of times in between
  (\<open>a\<close>, \<open>b\<close>, \<open>c\<close>), and anything but a further message may happen afterwards (\<open>rest\<close>).
  Then exactly one document is added to the store; it carries the session id, the elapsed
  time at finalization and \<^verbatim>\<open>chunkCount = 2\<close>; the messages sent are the welcome message,
  the partial messages and exactly one final message, with that document's identifier and
  text; and at no moment before the insert settles has anything been added to the store.
\<close>

theorem two_chunk_session:
  assumes "db_fault reply = None" and "list_all (\<lambda>e. \<not> is_Message e) rest"
  shows "documents (ws_run (transcriptionWebSocket sid t0 docs)
                      (two_chunk_schedule d1 a d2 b now c @ [CreateSettles 0 reply] @ rest)) =
           docs @ [\<lparr>doc_id = db_id reply,
                     doc_audioUrl = trim (''ws://streaming-session/'' @ sid),
                     doc_transcription = generateFinalTranscription sid [Some (JStr d1), Some (JStr d2)],
                     doc_source = mock, doc_language = None,
                     doc_metadata = Some \<lparr>meta_sessionId = sid, meta_duration = now - t0,
                                           meta_chunkCount = 2\<rparr>,
                     doc_createdAt = db_now reply\<rparr>]
       \<and> outbox (ws_run (transcriptionWebSocket sid t0 docs)
                    (two_chunk_schedule d1 a d2 b now c @ [CreateSettles 0 reply] @ rest)) =
           welcomeMessage # replicate (Suc a) (Partial ''Hello this'' 55)
           @ [Final (generateFinalTranscription sid [Some (JStr d1), Some (JStr d2)]) (db_id reply)]
       \<and> (\<forall>n \<le> length (two_chunk_schedule d1 a d2 b now c).
             documents (ws_run (transcriptionWebSocket sid t0 docs)
                (take n (two_chunk_schedule d1 a d2 b now c @ [CreateSettles 0 reply] @ rest))) = docs)"
proof -
  let ?s0 = "transcriptionWebSocket sid t0 docs"
  let ?evs = "two_chunk_schedule d1 a d2 b now c"
  let ?text = "generateFinalTranscription sid [Some (JStr d1), Some (JStr d2)]"
  let ?doc = "\<lparr>doc_id = db_id reply,
                     doc_audioUrl = trim (''ws://streaming-session/'' @ sid),
                     doc_transcription = ?text,
                     doc_source = mock, doc_language = None,
                     doc_metadata = Some \<lparr>meta_sessionId = sid, meta_duration = now - t0,
                                           meta_chunkCount = 2\<rparr>,
                     doc_createdAt = db_now reply\<rparr>"
  from two_chunk_schedule_state [of sid t0 docs d1 a d2 b now c] obtain em
    where pre0: "ws_run (transcriptionWebSocket sid t0 docs) (two_chunk_schedule d1 a d2 b now c) =
     \<lparr>sessionId = sid, ws_startTime = t0, chunkCount = 2,
      audioChunks = [Some (JStr d1), Some (JStr d2)], isComplete = True, emitter = em,
      finalizers = [AwaitingCreate
         \<lparr>in_audioUrl = ''ws://streaming-session/'' @ sid,
          in_transcription = generateFinalTranscription sid [Some (JStr d1), Some (JStr d2)],
          in_source = Some mock, in_language = None,
          in_metadata = Some \<lparr>meta_sessionId = sid, meta_duration = now - t0, meta_chunkCount = 2\<rparr>\<rparr>],
      socket_open = True,
      outbox = welcomeMessage # replicate (Suc a) (Partial ''Hello this'' 55),
      documents = docs\<rparr>" ..
  define inp where "inp = \<lparr>in_audioUrl = ''ws://streaming-session/'' @ sid,
          in_transcription = ?text,
          in_source = Some mock, in_language = None,
          in_metadata = Some \<lparr>meta_sessionId = sid, meta_duration = now - t0, meta_chunkCount = 2\<rparr>\<rparr>"
  define p where "p = \<lparr>sessionId = sid, ws_startTime = t0, chunkCount = 2,
      audioChunks = [Some (JStr d1), Some (JStr d2)], isComplete = True, emitter = em,
      finalizers = [AwaitingCreate inp],
      socket_open = True,
      outbox = welcomeMessage # replicate (Suc a) (Partial ''Hello this'' 55),
      documents = docs\<rparr>"
  define q where "q = p\<lparr>finalizers := [Finished], socket_open := False,
         outbox := welcomeMessage # replicate (Suc a) (Partial ''Hello this'' 55)
                   @ [Final ?text (db_id reply)],
         documents := docs @ [?doc]\<rparr>"
  have pre: "ws_run ?s0 ?evs = p" by (simp only: pre0 p_def inp_def)
  have url: "trim (''ws://streaming-session/'' @ sid) \<noteq> []"
    by (rule session_url_nonempty)
  have text_ne: "?text \<noteq> []"
    by (simp add: generateFinalTranscription_def)
  have created: "ws_step p (CreateSettles 0 reply) = q"
    using url text_ne assms(1)
    by (simp add: p_def q_def inp_def on_create_settles_def TranscriptionModel_create_def send_def Let_def)
  have fin: "finalizers q = [Finished]" and closed: "\<not> socket_open q"
    by (simp_all add: q_def)
  from finished_run [OF fin closed assms(2)]
  have "documents (ws_run q rest) = docs @ [?doc]"
    and "outbox (ws_run q rest) = welcomeMessage # replicate (Suc a) (Partial ''Hello this'' 55)
                   @ [Final ?text (db_id reply)]"
    by (simp_all add: q_def)
  moreover have "ws_run ?s0 (?evs @ [CreateSettles 0 reply] @ rest) = ws_run q rest"
    by (simp only: ws_run_append ws_run_Cons ws_run_Nil pre created)
  moreover have "\<forall>n \<le> length ?evs. documents (ws_run ?s0 (take n (?evs @ [CreateSettles 0 reply] @ rest))) = docs"
  proof (intro allI impI)
    fix n assume "n \<le> length ?evs"
    then have "take n (?evs @ [CreateSettles 0 reply] @ rest) = take n ?evs" by simp
    moreover have "documents (ws_run ?s0 (take n ?evs)) = documents ?s0"
      by (rule documents_without_create) (rule schedule_without_create)
    ultimately show "documents (ws_run ?s0 (take n (?evs @ [CreateSettles 0 reply] @ rest))) = docs"
      by (simp add: transcriptionWebSocket_def)
  qed
  ultimately show ?thesis by simp
qed


theorem two_chunk_session_witness:
  "documents (ws_run fresh_session
      (two_chunk_schedule ''a'' 1 ''b'' 1 1500 0 @ [CreateSettles 0 good_reply] @ [SocketClosed])) =
     [\<lparr>doc_id = ''id1'', doc_audioUrl = ''ws://streaming-session/s1'',
       doc_transcription = generateFinalTranscription ''s1'' [Some (JStr ''a''), Some (JStr ''b'')],
       doc_source = mock, doc_language = None,
       doc_metadata = Some \<lparr>meta_sessionId = ''s1'', meta_duration = 1500, meta_chunkCount = 2\<rparr>,
       doc_createdAt = 1600\<rparr>]
   \<and> outbox (ws_run fresh_session
      (two_chunk_schedule ''a'' 1 ''b'' 1 1500 0 @ [CreateSettles 0 good_reply] @ [SocketClosed])) =
     [welcomeMessage, Partial ''Hello this'' 55, Partial ''Hello this'' 55,
      Final (generateFinalTranscription ''s1'' [Some (JStr ''a''), Some (JStr ''b'')]) ''id1'']
   \<and> documents (ws_run fresh_session
      (take 5 (two_chunk_schedule ''a'' 1 ''b'' 1 1500 0 @ [CreateSettles 0 good_reply] @ [SocketClosed]))) = []"
proof -
  have accepted: "db_fault good_reply = None"
    by (simp add: good_reply_def)
  have quiet: "list_all (\<lambda>e. \<not> is_Message e) [SocketClosed]"
    by simp
  have url: "trim (''ws://streaming-session/'' @ ''s1'') = ''ws://streaming-session/s1''"
    by code_simp
  have before: "5 \<le> length (two_chunk_schedule ''a'' 1 ''b'' 1 1500 0)"
    by (simp add: two_chunk_schedule_def)
  note session = two_chunk_session [OF accepted quiet, of "''s1''" 0 "[]" "''a''" 1 "''b''" 1 1500 0]
  from session have stored: "documents (ws_run (transcriptionWebSocket ''s1'' 0 [])
      (two_chunk_schedule ''a'' 1 ''b'' 1 1500 0 @ [CreateSettles 0 good_reply] @ [SocketClosed])) =
     [] @ [\<lparr>doc_id = db_id good_reply, doc_audioUrl = trim (''ws://streaming-session/'' @ ''s1''),
       doc_transcription = generateFinalTranscription ''s1'' [Some (JStr ''a''), Some (JStr ''b'')],
       doc_source = mock, doc_language = None,
       doc_metadata = Some \<lparr>meta_sessionId = ''s1'', meta_duration = 1500 - 0, meta_chunkCount = 2\<rparr>,
       doc_createdAt = db_now good_reply\<rparr>]"
    by (rule conjunct1)
  from session have sent: "outbox (ws_run (transcriptionWebSocket ''s1'' 0 [])
      (two_chunk_schedule ''a'' 1 ''b'' 1 1500 0 @ [CreateSettles 0 good_reply] @ [SocketClosed])) =
     welcomeMessage # replicate (Suc 1) (Partial ''Hello this'' 55)
     @ [Final (generateFinalTranscription ''s1'' [Some (JStr ''a''), Some (JStr ''b'')]) (db_id good_reply)]"
    by (rule conjunct1 [OF conjunct2])
  from session have "\<forall>n \<le> length (two_chunk_schedule ''a'' 1 ''b'' 1 1500 0).
      documents (ws_run (transcriptionWebSocket ''s1'' 0 [])
        (take n (two_chunk_schedule ''a'' 1 ''b'' 1 1500 0 @ [CreateSettles 0 good_reply] @ [SocketClosed]))) = []"
    by (rule conjunct2 [OF conjunct2])
  with before have early: "documents (ws_run (transcriptionWebSocket ''s1'' 0 [])
        (take 5 (two_chunk_schedule ''a'' 1 ''b'' 1 1500 0 @ [CreateSettles 0 good_reply] @ [SocketClosed]))) = []"
    by blast
  have "replicate (Suc 1) (Partial ''Hello this'' 55) = [Partial ''Hello this'' 55, Partial ''Hello this'' 55]"
    by simp
  with stored sent early url show ?thesis
    unfolding fresh_session_def by (simp add: good_reply_def)
qed


text \<open>
  Claim C6 as stated fails when the database rejects the insert: the same two chunks are
  received, nothing is stored, no final message is sent; the \<^verbatim>\<open>catch\<close> block sends the
  error message and the connection stays open.
\<close>

theorem two_chunk_session_insert_rejected:
  "documents (ws_run fresh_session (two_chunk_schedule ''a'' 1 ''b'' 1 1500 0 @ [CreateSettles 0 bad_reply])) = []
   \<and> outbox (ws_run fresh_session (two_chunk_schedule ''a'' 1 ''b'' 1 1500 0 @ [CreateSettles 0 bad_reply])) =
       [welcomeMessage, Partial ''Hello this'' 55, Partial ''Hello this'' 55, errorMessage]
   \<and> filter is_Final
        (outbox (ws_run fresh_session (two_chunk_schedule ''a'' 1 ''b'' 1 1500 0 @ [CreateSettles 0 bad_reply]))) = []
   \<and> socket_open (ws_run fresh_session (two_chunk_schedule ''a'' 1 ''b'' 1 1500 0 @ [CreateSettles 0 bad_reply]))"
  by code_simp


end
